theory Spec2Isabelle
  imports Main "HOL-Library.AList"
begin

section \<open>Template synchronisation of faas-cli: the model\<close>

text \<open>
  The development follows \<^verbatim>\<open>commands/fetch_templates.go\<close> and
  \<^verbatim>\<open>commands/template_pull_stack.go\<close>. Go strings are byte strings (\<^typ>\<open>string\<close>),
  an \<^verbatim>\<open>error\<close> return is a value of \<open>error option\<close> or the left side of a sum, and
  everything the commands ask of the operating system, of git or of the clock is either
  part of an explicit state or an input of the model.
\<close>

subsection \<open>The missing-template resolver\<close>

text \<open>
  \<^verbatim>\<open>stack.Function\<close> comes from the go-sdk; \<^verbatim>\<open>getMissingTemplates\<close> reads its
  \<^verbatim>\<open>Language\<close> field only.
\<close>

record stack_Function =
  Language :: string

text \<open>
  What \<^verbatim>\<open>os.Stat\<close> answers for a path: no error, an error for which
  \<^verbatim>\<open>os.IsNotExist\<close> holds, or any other error (permission denied, for instance).
\<close>

datatype stat_result = StatOk | StatNotExist | StatOtherError

text \<open>
  The loop of \<^verbatim>\<open>getMissingTemplates\<close> (lines 107 to 112). \<^verbatim>\<open>functions\<close> is a Go
  map, whose iteration order the language leaves unspecified: the model takes the entries
  of the map as the list in which the \<^verbatim>\<open>range\<close> loop visits them. \<open>missing\<close> is
  the slice built so far.
\<close>

fun getMissingLoop ::
  "(string \<Rightarrow> stat_result) \<Rightarrow> string \<Rightarrow> (string \<times> stack_Function) list \<Rightarrow> string list \<Rightarrow> string list"
where
  "getMissingLoop stat templatesDir [] missing = missing"
| "getMissingLoop stat templatesDir ((name, function) # rest) missing =
     (let templatePath = templatesDir @ ''/'' @ Language function in
      if stat templatePath = StatNotExist
      then getMissingLoop stat templatesDir rest (missing @ [Language function])
      else getMissingLoop stat templatesDir rest missing)"

text \<open>The second component is the error, which line 114 always returns as \<^verbatim>\<open>nil\<close>.\<close>

definition getMissingTemplates ::
  "(string \<Rightarrow> stat_result) \<Rightarrow> (string \<times> stack_Function) list \<Rightarrow> string \<Rightarrow> string list \<times> string option"
where
  "getMissingTemplates stat functions templatesDir =
     (getMissingLoop stat templatesDir functions [], None)"

text \<open>
  The two sets of the specification: the languages the stack declares, and the names
  that the file system does not report as absent below the cache directory.
\<close>

definition declaredLanguages :: "(string \<times> stack_Function) list \<Rightarrow> string set" where
  "declaredLanguages functions = set (map (\<lambda>(name, function). Language function) functions)"

definition cachePresent :: "(string \<Rightarrow> stat_result) \<Rightarrow> string \<Rightarrow> string set" where
  "cachePresent stat templatesDir = {l. stat (templatesDir @ ''/'' @ l) \<noteq> StatNotExist}"

text \<open>
  A file system in which no path exists, a stack with two perl functions, and a stack
  that declares a ruby function before a perl function.
\<close>

definition rubyPerlFunctions :: "(string \<times> stack_Function) list" where
  "rubyPerlFunctions =
     [(''ruby-fn'', \<lparr>Language = ''ruby''\<rparr>), (''perl-fn'', \<lparr>Language = ''perl''\<rparr>)]"

definition statNothing :: "string \<Rightarrow> stat_result" where
  "statNothing path = StatNotExist"

definition twoPerlFunctions :: "(string \<times> stack_Function) list" where
  "twoPerlFunctions =
     [(''perl-fn'', \<lparr>Language = ''perl''\<rparr>), (''perl-fn2'', \<lparr>Language = ''perl''\<rparr>)]"

subsection \<open>The pull orchestrator\<close>

text \<open>\<^verbatim>\<open>stack.TemplateSource\<close> of the go-sdk: a name and an optional source URL.\<close>

record TemplateSource =
  Name :: string
  Source :: string

text \<open>
  The inner loop of \<^verbatim>\<open>pullStackTemplates\<close> (lines 76 to 82): the first configured
  source with the requested name, or the zero value when there is none.
\<close>

fun findTemplateConfig :: "TemplateSource list \<Rightarrow> string \<Rightarrow> TemplateSource" where
  "findTemplateConfig [] val = \<lparr>Name = '''', Source = ''''\<rparr>"
| "findTemplateConfig (config # rest) val =
     (if Name config = val then config else findTemplateConfig rest val)"

text \<open>
  \<^verbatim>\<open>pullStackTemplates\<close> (lines 72 to 101). Its two callees are parameters:
  \<^verbatim>\<open>runTemplateStorePull\<close> (not part of the sources at hand) and \<^verbatim>\<open>pullTemplate\<close>,
  each a function of the state of the world \<open>'w\<close> that returns its error, if any, and
  the new state. \<open>overwrite\<close> is the package-level flag of that name. The cobra command
  handed through to the store pull carries no information here and is left out.
\<close>

fun pullStackTemplates ::
  "(string list \<Rightarrow> 'w \<Rightarrow> 'e option \<times> 'w) \<Rightarrow> (string \<Rightarrow> string \<Rightarrow> bool \<Rightarrow> 'w \<Rightarrow> 'e option \<times> 'w) \<Rightarrow>
   bool \<Rightarrow> string list \<Rightarrow> TemplateSource list \<Rightarrow> 'w \<Rightarrow> 'e option \<times> 'w"
where
  "pullStackTemplates runTemplateStorePull pullTemplate overwrite [] templateSources w = (None, w)"
| "pullStackTemplates runTemplateStorePull pullTemplate overwrite (val # rest) templateSources w =
     (let templateConfig = findTemplateConfig templateSources val in
      if Source templateConfig = ''''
      then (case runTemplateStorePull [val] w of
              (Some err, w') \<Rightarrow> (Some err, w')
            | (None, w') \<Rightarrow>
                pullStackTemplates runTemplateStorePull pullTemplate overwrite rest templateSources w')
      else (case pullTemplate (Source templateConfig) (Name templateConfig) overwrite w of
              (Some err, w') \<Rightarrow> (Some err, w')
            | (None, w') \<Rightarrow>
                pullStackTemplates runTemplateStorePull pullTemplate overwrite rest templateSources w'))"

text \<open>
  Two callees to run the orchestrator on: each appends the name it was asked for to a
  log, and the store knows every template but \<open>my_powershell\<close>.
\<close>

definition loggingStorePull :: "string list \<Rightarrow> string list \<Rightarrow> string option \<times> string list" where
  "loggingStorePull args log =
     (if args = [''my_powershell'']
      then (Some ''template not found in store'', log @ args)
      else (None, log @ args))"

definition loggingPullTemplate ::
  "string \<Rightarrow> string \<Rightarrow> bool \<Rightarrow> string list \<Rightarrow> string option \<times> string list"
where
  "loggingPullTemplate repository templateName overwriteTemplates log = (None, log @ [templateName])"

subsection \<open>Strings\<close>

text \<open>\<^verbatim>\<open>strings.HasPrefix\<close> and \<^verbatim>\<open>strings.TrimPrefix\<close> of the Go library.\<close>

definition hasPrefix :: "string \<Rightarrow> string \<Rightarrow> bool" where
  "hasPrefix s prefix = (take (length prefix) s = prefix)"

definition trimPrefix :: "string \<Rightarrow> string \<Rightarrow> string" where
  "trimPrefix s prefix = (if hasPrefix s prefix then drop (length prefix) s else s)"

definition ShaPrefix :: string where
  "ShaPrefix = ''sha-''"

text \<open>
  The regular expression of line 76, \<^verbatim>\<open>^[a-fA-F0-9]{7,40}$\<close>. Go's \<^verbatim>\<open>$\<close> matches at
  the end of the text only, so the expression accepts exactly the strings of 7 to 40
  hexadecimal digits.
\<close>

definition isHexDigit :: "char \<Rightarrow> bool" where
  "isHexDigit c = (c \<in> set ''abcdefABCDEF0123456789'')"

definition matchesSHA :: "string \<Rightarrow> bool" where
  "matchesSHA s = (7 \<le> length s \<and> length s \<le> 40 \<and> list_all isHexDigit s)"

subsection \<open>Errors\<close>

text \<open>
  One constructor for each place where the two source files build an error; the
  arguments are the values that the message is formatted from. \<open>ErrGitSHA\<close> and
  \<open>ErrCopyFiles\<close> stand for the errors of \<^verbatim>\<open>versioncontrol.GetGitSHAFor\<close> and
  \<^verbatim>\<open>builder.CopyFiles\<close>, which are returned as they are.
\<close>

datatype error =
    ErrPassValidTemplateURL
  | ErrTempDir string
  | ErrGitClone string
  | ErrInvalidSHA string
  | ErrCheckout string string
  | ErrGitLog string
  | ErrGitLogExit int string string
  | ErrGitSHA string
  | ErrGetwd string
  | ErrCreateTemplateDir string string
  | ErrUnableToOverwrite "string list"
  | ErrReadDirectory string
  | ErrFindTemplateYml string
  | ErrFindTemplates string
  | ErrCopyFiles string
  | ErrMarshalMeta string
  | ErrWriteMeta string

subsection \<open>Provenance records and their JSON form\<close>

text \<open>
  \<^verbatim>\<open>TemplateMeta\<close> (lines 291 to 296). An instant of \<^verbatim>\<open>time.Time\<close> is a natural
  number.
\<close>

record TemplateMeta =
  Repository :: string
  RefName :: string
  Sha :: string
  WrittenAt :: nat

text \<open>
  \<^verbatim>\<open>encoding/json\<close> is modelled at the level of JSON documents, not of their text: a
  document is a string, a timestamp (the JSON string that holds the RFC 3339 form of an
  instant) or an object, the list of its members in the order they are written. The
  string of a document is the Go string that \<^verbatim>\<open>json.Unmarshal\<close> gives for it.
\<close>

datatype json = JString string | JTime nat | JObject "(string \<times> json) list"

text \<open>
  A Go string is any sequence of bytes, and a JSON string holds UTF-8 text only:
  \<^verbatim>\<open>json.Marshal\<close> replaces every byte that starts no valid UTF-8 sequence by the
  replacement character U+FFFD and writes everything else so that it is read back as it
  was. \<open>runeSize\<close> follows \<^verbatim>\<open>utf8.DecodeRuneInString\<close>: the number of bytes of the
  sequence at the head of the string, or 0 where Go returns \<^verbatim>\<open>RuneError\<close> with width 1
  (a byte that cannot start a sequence, a sequence cut short, a continuation byte out of
  range, which covers the overlong forms, the surrogates and the values above U+10FFFF).
\<close>

definition byteOf :: "char \<Rightarrow> nat" where
  "byteOf c = of_char c"

definition between :: "nat \<Rightarrow> nat \<Rightarrow> char \<Rightarrow> bool" where
  "between lo hi c = (lo \<le> byteOf c \<and> byteOf c \<le> hi)"

fun runeSize :: "string \<Rightarrow> nat" where
  "runeSize [] = 0"
| "runeSize (c # cs) =
     (let x = byteOf c in
      if x < 0x80 then 1
      else if x < 0xC2 then 0
      else if x < 0xE0 then
        (case cs of
           b1 # rest \<Rightarrow> if between 0x80 0xBF b1 then 2 else 0
         | _ \<Rightarrow> 0)
      else if x < 0xF0 then
        (case cs of
           b1 # b2 # rest \<Rightarrow>
             if between (if x = 0xE0 then 0xA0 else 0x80) (if x = 0xED then 0x9F else 0xBF) b1
                \<and> between 0x80 0xBF b2
             then 3 else 0
         | _ \<Rightarrow> 0)
      else if x < 0xF5 then
        (case cs of
           b1 # b2 # b3 # rest \<Rightarrow>
             if between (if x = 0xF0 then 0x90 else 0x80) (if x = 0xF4 then 0x8F else 0xBF) b1
                \<and> between 0x80 0xBF b2 \<and> between 0x80 0xBF b3
             then 4 else 0
         | _ \<Rightarrow> 0)
      else 0)"

text \<open>The three bytes of U+FFFD in UTF-8.\<close>

definition replacementChar :: string where
  "replacementChar = [CHR 0xEF, CHR 0xBF, CHR 0xBD]"

text \<open>
  The string that is read back for a Go string written by \<^verbatim>\<open>json.Marshal\<close>: the loop of
  the encoder over the bytes, \<open>k\<close> being the number of bytes still to copy of the
  sequence that was last found valid.
\<close>

fun jsonCoerceFrom :: "nat \<Rightarrow> string \<Rightarrow> string" where
  "jsonCoerceFrom k [] = []"
| "jsonCoerceFrom k (c # cs) =
     (if k > 0 then c # jsonCoerceFrom (k - 1) cs
      else (let size = runeSize (c # cs) in
            if size = 0 then replacementChar @ jsonCoerceFrom 0 cs
            else c # jsonCoerceFrom (size - 1) cs))"

definition jsonCoerce :: "string \<Rightarrow> string" where
  "jsonCoerce s = jsonCoerceFrom 0 s"

text \<open>\<^verbatim>\<open>utf8.ValidString\<close>: every byte belongs to a valid sequence.\<close>

fun validFrom :: "nat \<Rightarrow> string \<Rightarrow> bool" where
  "validFrom k [] = True"
| "validFrom k (c # cs) =
     (if k > 0 then validFrom (k - 1) cs
      else (let size = runeSize (c # cs) in
            size \<noteq> 0 \<and> validFrom (size - 1) cs))"

definition validUTF8 :: "string \<Rightarrow> bool" where
  "validUTF8 s = validFrom 0 s"

text \<open>
  \<^verbatim>\<open>json.Marshal\<close> at type \<^verbatim>\<open>TemplateMeta\<close>, after the struct tags: the members in the
  order of the fields, \<^verbatim>\<open>ref_name\<close> and \<^verbatim>\<open>sha\<close> left out when the field is empty
  (\<^verbatim>\<open>omitempty\<close>), every string with its bytes outside UTF-8 replaced. For a record of
  this type it returns no error.
\<close>

definition templateMetaJSON :: "TemplateMeta \<Rightarrow> json" where
  "templateMetaJSON m =
     JObject
       ([(''repository'', JString (jsonCoerce (Repository m)))]
        @ (if RefName m = '''' then [] else [(''ref_name'', JString (jsonCoerce (RefName m)))])
        @ (if Sha m = '''' then [] else [(''sha'', JString (jsonCoerce (Sha m)))])
        @ [(''written_at'', JTime (WrittenAt m))])"

definition jsonMarshal :: "TemplateMeta \<Rightarrow> string + json" where
  "jsonMarshal m = Inr (templateMetaJSON m)"

text \<open>
  \<^verbatim>\<open>json.Unmarshal\<close> into a zero \<^verbatim>\<open>TemplateMeta\<close>: a member that is absent leaves the
  zero value of its field, a member of the wrong kind is an error (\<open>None\<close>), and of
  several members with one key the last is the one that counts.
\<close>

definition stringMember :: "(string \<times> json) list \<Rightarrow> string \<Rightarrow> string option" where
  "stringMember members key =
     (case map_of (rev members) key of
        None \<Rightarrow> Some ''''
      | Some (JString s) \<Rightarrow> Some s
      | Some _ \<Rightarrow> None)"

definition timeMember :: "(string \<times> json) list \<Rightarrow> string \<Rightarrow> nat option" where
  "timeMember members key =
     (case map_of (rev members) key of
        None \<Rightarrow> Some 0
      | Some (JTime t) \<Rightarrow> Some t
      | Some _ \<Rightarrow> None)"

definition jsonUnmarshal :: "json \<Rightarrow> TemplateMeta option" where
  "jsonUnmarshal doc =
     (case doc of
        JObject members \<Rightarrow>
          (case (stringMember members ''repository'', stringMember members ''ref_name'',
                 stringMember members ''sha'', timeMember members ''written_at'') of
             (Some repository, Some refName, Some sha, Some writtenAt) \<Rightarrow>
               Some \<lparr>Repository = repository, RefName = refName, Sha = sha, WrittenAt = writtenAt\<rparr>
           | _ \<Rightarrow> None)
      | _ \<Rightarrow> None)"

text \<open>The keys of the members of a document, in order.\<close>

definition jsonKeys :: "json \<Rightarrow> string list" where
  "jsonKeys doc = (case doc of JObject members \<Rightarrow> map fst members | _ \<Rightarrow> [])"

subsection \<open>The file system, the tools and the state of a run\<close>

text \<open>
  A file, which stands for every entry that is not a directory, holds bytes or the
  document that \<^verbatim>\<open>json.Marshal\<close> produced for it. A directory is the list of its
  entries as \<^verbatim>\<open>os.ReadDir\<close> returns them; a name in it is resolved with
  \<^const>\<open>map_of\<close>.
\<close>

datatype content = Bytes string | Document json

datatype node = File content | Dir "(string \<times> node) list"

fun isDir :: "string \<times> node \<Rightarrow> bool" where
  "isDir (name, Dir files) = True"
| "isDir (name, File data) = False"

text \<open>The names of the entries that are directories.\<close>

definition dirNames :: "(string \<times> node) list \<Rightarrow> string list" where
  "dirNames entries = map fst (filter isDir entries)"

text \<open>
  The local template directory \<^verbatim>\<open>./template\<close> of the working directory: absent,
  present but not readable, or present with its entries.
\<close>

datatype dirstate = Missing | Unreadable | Entries "(string \<times> node) list"

text \<open>The three clone commands of package \<^verbatim>\<open>versioncontrol\<close> and their arguments.\<close>

datatype clone_cmd = GitCloneDefault | GitCloneBranch | GitCloneFullDepth

record clone_args =
  arg_dir :: string
  arg_repo :: string
  arg_refname :: "string option"

text \<open>
  The result of \<^verbatim>\<open>ExecTask.Execute\<close>: an error, or exit code, standard output and
  standard error.
\<close>

datatype exec_result = ExecError string | ExecResult int string string

text \<open>
  The calls a run makes to the version-control tool and for its temporary directory, in
  the order it makes them; a call is recorded whether it succeeds or not.
\<close>

datatype event =
    MkdirTemp
  | Invoke clone_cmd clone_args
  | Checkout string string
  | GitLog string
  | GetGitSHA string
  | RemoveAll string

record world =
  cache :: dirstate
  trace :: "event list"

text \<open>
  What a run reads from outside: the two flags, and the answers of every call it makes
  to the operating system, to git and to the clock. \<open>osReadDir\<close> is the listing of a
  directory of the retrieved tree (\<open>None\<close> for an error), \<open>osStat\<close> the answer for a
  path, and \<open>osMkdirAll\<close>, \<open>copyFilesError\<close> and \<open>osWriteFile\<close> say for a path whether
  creating the directory, copying to it or writing it fails. \<open>timeNow\<close> is the answer
  of \<^verbatim>\<open>time.Now\<close> at the call that writes the record of a bundle, one instant for each
  bundle directory.
\<close>

record env =
  pullDebug :: bool
  envFaasDebug :: string
  osMkdirTemp :: "string + string"
  gitCloneInvoke :: "clone_cmd \<Rightarrow> clone_args \<Rightarrow> string option"
  gitCheckout :: "string \<Rightarrow> string \<Rightarrow> exec_result"
  gitLogOneline :: "string \<Rightarrow> exec_result"
  getGitSHAFor :: "string \<Rightarrow> string + string"
  osGetwd :: "string + string"
  osMkdirAll :: "string \<Rightarrow> string option"
  osReadDir :: "string \<Rightarrow> (string \<times> node) list option"
  osStat :: "string \<Rightarrow> stat_result"
  copyFilesError :: "string \<Rightarrow> string option"
  osWriteFile :: "string \<Rightarrow> string option"
  timeNow :: "string \<Rightarrow> nat"

subsection \<open>Reconciliation: \<^verbatim>\<open>moveTemplates\<close>\<close>

text \<open>\<^verbatim>\<open>canWriteLanguage\<close> (lines 146 to 152).\<close>

definition canWriteLanguage :: "string list \<Rightarrow> string \<Rightarrow> bool \<Rightarrow> bool" where
  "canWriteLanguage existingLanguages language overwriteTemplate =
     (if overwriteTemplate then True else \<not> (language \<in> set existingLanguages))"

text \<open>
  Modelled from the spec: \<^verbatim>\<open>builder.CopyFiles\<close> is not among the sources at hand. The
  specification has an approved bundle directory copied verbatim into the cache, a bundle
  being replaced wholesale and never merged: the entry of the cache named \<open>dest\<close> becomes
  a directory with the entries of the source bundle. The copy fails when the environment
  says so, and where a regular file stands at the destination, since no directory can be
  made there; a failed copy leaves the cache as it was. The destination is one entry of
  the cache, also for a ref with a path separator, which makes a nested path on disk.
\<close>

definition CopyFiles ::
  "env \<Rightarrow> (string \<times> node) list \<Rightarrow> string \<Rightarrow> (string \<times> node) list \<Rightarrow> string + (string \<times> node) list"
where
  "CopyFiles e src dest entries =
     (case copyFilesError e dest of
        Some err \<Rightarrow> Inl err
      | None \<Rightarrow>
          (case map_of entries dest of
             Some (File data) \<Rightarrow> Inl ''not a directory''
           | _ \<Rightarrow> Inr (AList.update dest (Dir src) entries)))"

text \<open>
  \<^verbatim>\<open>writeTemplateMeta\<close> (lines 227 to 246), on the entries of the cache: \<open>languageDest\<close>
  is the name of the bundle directory in the cache. \<^verbatim>\<open>os.WriteFile\<close> fails when the
  environment says so and when the bundle directory does not exist; otherwise it replaces
  the file \<^verbatim>\<open>meta.json\<close> of the bundle.
\<close>

definition writeTemplateMeta ::
  "env \<Rightarrow> string \<Rightarrow> string \<Rightarrow> string \<Rightarrow> string \<Rightarrow> (string \<times> node) list \<Rightarrow> error + (string \<times> node) list"
where
  "writeTemplateMeta e languageDest repository refName sha entries =
     (let templateMeta =
            \<lparr>Repository = repository, RefName = refName, Sha = sha,
             WrittenAt = timeNow e languageDest\<rparr> in
      case jsonMarshal templateMeta of
        Inl err \<Rightarrow> Inl (ErrMarshalMeta err)
      | Inr metaBytes \<Rightarrow>
          (case osWriteFile e (languageDest @ ''/meta.json'') of
             Some err \<Rightarrow> Inl (ErrWriteMeta err)
           | None \<Rightarrow>
               (case map_of entries languageDest of
                  Some (Dir files) \<Rightarrow>
                    Inr (AList.update languageDest
                          (Dir (AList.update ''meta.json'' (File (Document metaBytes)) files))
                          entries)
                | _ \<Rightarrow> Inl (ErrWriteMeta ''no such file or directory''))))"

text \<open>
  Reading a provenance record back: the document in the file \<^verbatim>\<open>meta.json\<close> of the
  bundle named \<open>languageDest\<close>, and its decoding.
\<close>

definition readMetaFile :: "(string \<times> node) list \<Rightarrow> string \<Rightarrow> json option" where
  "readMetaFile entries languageDest =
     (case map_of entries languageDest of
        Some (Dir files) \<Rightarrow>
          (case map_of files ''meta.json'' of
             Some (File (Document doc)) \<Rightarrow> Some doc
           | _ \<Rightarrow> None)
      | _ \<Rightarrow> None)"

definition readTemplateMeta :: "(string \<times> node) list \<Rightarrow> string \<Rightarrow> TemplateMeta option" where
  "readTemplateMeta entries languageDest =
     (case readMetaFile entries languageDest of
        Some doc \<Rightarrow> jsonUnmarshal doc
      | None \<Rightarrow> None)"

text \<open>
  The first loop of \<^verbatim>\<open>moveTemplates\<close> (lines 172 to 183) over the entries of the local
  template directory; \<open>existingLanguages\<close> is the slice built so far.
\<close>

fun existingLoop ::
  "env \<Rightarrow> string \<Rightarrow> (string \<times> node) list \<Rightarrow> string list \<Rightarrow> error + string list"
where
  "existingLoop e localTemplatesDir [] existingLanguages = Inr existingLanguages"
| "existingLoop e localTemplatesDir ((name, File data) # rest) existingLanguages =
     existingLoop e localTemplatesDir rest existingLanguages"
| "existingLoop e localTemplatesDir ((name, Dir files) # rest) existingLanguages =
     (let templateFile = localTemplatesDir @ ''/'' @ name @ ''/template.yml'' in
      if osStat e templateFile = StatOtherError
      then Inl (ErrFindTemplateYml templateFile)
      else existingLoop e localTemplatesDir rest (existingLanguages @ [name]))"

text \<open>
  The state of the second loop: the two slices it appends to and the entries of the
  cache.
\<close>

record reconcile =
  fetchedLanguages :: "string list"
  protectedLanguages :: "string list"
  cacheEntries :: "(string \<times> node) list"

text \<open>
  The second loop of \<^verbatim>\<open>moveTemplates\<close> (lines 190 to 222) over the entries of the
  template root of the retrieved tree. It returns the error that ended it, if any, and
  the state it reached.
\<close>

fun moveLoop ::
  "env \<Rightarrow> string list \<Rightarrow> bool \<Rightarrow> string \<Rightarrow> string \<Rightarrow> string \<Rightarrow> (string \<times> node) list \<Rightarrow>
   reconcile \<Rightarrow> error option \<times> reconcile"
where
  "moveLoop e existingLanguages overwriteTemplate repository refName sha [] s = (None, s)"
| "moveLoop e existingLanguages overwriteTemplate repository refName sha ((name, File data) # rest) s =
     moveLoop e existingLanguages overwriteTemplate repository refName sha rest s"
| "moveLoop e existingLanguages overwriteTemplate repository refName sha ((name, Dir files) # rest) s =
     (let language = name;
          refSuffix = (if refName \<noteq> '''' then ''@'' @ refName else '''') in
      if canWriteLanguage existingLanguages language overwriteTemplate
      then
        (let languageDest = (if refName \<noteq> '''' then language @ ''@'' @ refName else language);
             langName = (if refName \<noteq> '''' then language @ ''@'' @ refName else language);
             s1 = s\<lparr>fetchedLanguages := fetchedLanguages s @ [langName]\<rparr> in
         case CopyFiles e files languageDest (cacheEntries s1) of
           Inl err \<Rightarrow> (Some (ErrCopyFiles err), s1)
         | Inr copied \<Rightarrow>
             (case writeTemplateMeta e languageDest repository refName sha copied of
                Inl err \<Rightarrow> (Some err, s1\<lparr>cacheEntries := copied\<rparr>)
              | Inr written \<Rightarrow>
                  moveLoop e existingLanguages overwriteTemplate repository refName sha rest
                    (s1\<lparr>cacheEntries := written\<rparr>)))
      else
        moveLoop e existingLanguages overwriteTemplate repository refName sha rest
          (s\<lparr>protectedLanguages := protectedLanguages s @ [language @ refSuffix]\<rparr>))"

text \<open>
  \<^verbatim>\<open>moveTemplates\<close> (lines 157 to 225). The result is the error, or the protected and
  the fetched languages; with an error the two slices are \<^verbatim>\<open>nil\<close>. The second
  component is the world after the call, with whatever was written before an error.
  The local template directory is the one of the world: \<open>localTemplatesDir\<close> is its
  path, used for the paths that are looked at and named in errors. \<open>templateName\<close> is a
  parameter that the function never reads.
\<close>

definition moveTemplates ::
  "env \<Rightarrow> string \<Rightarrow> string \<Rightarrow> string \<Rightarrow> bool \<Rightarrow> string \<Rightarrow> string \<Rightarrow> string \<Rightarrow> world \<Rightarrow>
   (error + string list \<times> string list) \<times> world"
where
  "moveTemplates e localTemplatesDir extractedPath templateName overwriteTemplate repository
       refName sha w =
     (case cache w of
        Entries templateEntries \<Rightarrow>
          (case existingLoop e localTemplatesDir templateEntries [] of
             Inl err \<Rightarrow> (Inl err, w)
           | Inr existingLanguages \<Rightarrow>
               (case osReadDir e (extractedPath @ ''/template'') of
                  None \<Rightarrow> (Inl (ErrFindTemplates (extractedPath @ ''/template'')), w)
                | Some extractedTemplates \<Rightarrow>
                    (case moveLoop e existingLanguages overwriteTemplate repository refName sha
                            extractedTemplates
                            \<lparr>fetchedLanguages = [], protectedLanguages = [],
                             cacheEntries = templateEntries\<rparr> of
                       (Some err, s) \<Rightarrow> (Inl err, w\<lparr>cache := Entries (cacheEntries s)\<rparr>)
                     | (None, s) \<Rightarrow>
                         (Inr (protectedLanguages s, fetchedLanguages s),
                          w\<lparr>cache := Entries (cacheEntries s)\<rparr>))))
      | _ \<Rightarrow> (Inl (ErrReadDirectory localTemplatesDir), w))"

subsection \<open>Synchronisation: \<^verbatim>\<open>fetchTemplates\<close>\<close>

text \<open>A call is added at the end of the trace.\<close>

definition record_event :: "event \<Rightarrow> world \<Rightarrow> world" where
  "record_event ev w = w\<lparr>trace := trace w @ [ev]\<rparr>"

text \<open>
  Lines 54 to 70: the choice of the clone command and of its arguments, and the clone.
\<close>

definition cloneCommand :: "string \<Rightarrow> string \<Rightarrow> string \<Rightarrow> clone_cmd \<times> clone_args" where
  "cloneCommand extractedPath templateURL refName =
     (let args = \<lparr>arg_dir = extractedPath, arg_repo = templateURL, arg_refname = None\<rparr> in
      if length refName > 0
      then (if hasPrefix refName ShaPrefix
            then (GitCloneFullDepth, args)
            else (GitCloneBranch, args\<lparr>arg_refname := Some refName\<rparr>))
      else (GitCloneDefault, args))"

definition cloneStep :: "env \<Rightarrow> string \<Rightarrow> string \<Rightarrow> string \<Rightarrow> world \<Rightarrow> error option \<times> world" where
  "cloneStep e extractedPath templateURL refName w =
     (case cloneCommand extractedPath templateURL refName of
        (cmd, args) \<Rightarrow>
          (case gitCloneInvoke e cmd args of
             Some err \<Rightarrow> (Some (ErrGitClone err), record_event (Invoke cmd args) w)
           | None \<Rightarrow> (None, record_event (Invoke cmd args) w)))"

text \<open>Lines 72 to 92: the check of the digest and its checkout.\<close>

definition checkoutStep :: "env \<Rightarrow> string \<Rightarrow> string \<Rightarrow> world \<Rightarrow> error option \<times> world" where
  "checkoutStep e extractedPath refName w =
     (if length refName > 0 \<and> hasPrefix refName ShaPrefix
      then
        (let targetCommit = trimPrefix refName ShaPrefix in
         if \<not> matchesSHA targetCommit
         then (Some (ErrInvalidSHA targetCommit), w)
         else
           (case gitCheckout e extractedPath targetCommit of
              ExecError err \<Rightarrow>
                (Some (ErrCheckout targetCommit err),
                 record_event (Checkout extractedPath targetCommit) w)
            | ExecResult exitCode out errOut \<Rightarrow>
                if exitCode \<noteq> 0
                then (Some (ErrCheckout targetCommit (out @ '' '' @ errOut)),
                      record_event (Checkout extractedPath targetCommit) w)
                else (None, record_event (Checkout extractedPath targetCommit) w)))
      else (None, w))"

text \<open>Lines 94 to 110: the log line that \<^verbatim>\<open>FAAS_DEBUG=1\<close> asks for.\<close>

definition debugLogStep :: "env \<Rightarrow> string \<Rightarrow> world \<Rightarrow> error option \<times> world" where
  "debugLogStep e extractedPath w =
     (if envFaasDebug e = ''1''
      then
        (case gitLogOneline e extractedPath of
           ExecError err \<Rightarrow> (Some (ErrGitLog err), record_event (GitLog extractedPath) w)
         | ExecResult exitCode out errOut \<Rightarrow>
             if exitCode \<noteq> 0
             then (Some (ErrGitLogExit exitCode errOut out), record_event (GitLog extractedPath) w)
             else (None, record_event (GitLog extractedPath) w))
      else (None, w))"

text \<open>
  Lines 118 to 127: the local template directory, created when \<^verbatim>\<open>os.Stat\<close> reports that
  it does not exist. The result is its path.
\<close>

definition prepareCache :: "env \<Rightarrow> world \<Rightarrow> (error + string) \<times> world" where
  "prepareCache e w =
     (case osGetwd e of
        Inl err \<Rightarrow> (Inl (ErrGetwd err), w)
      | Inr cwd \<Rightarrow>
          (let localTemplatesDir = cwd @ ''/template'' in
           if cache w = Missing
           then (case osMkdirAll e localTemplatesDir of
                   Some err \<Rightarrow> (Inl (ErrCreateTemplateDir localTemplatesDir err), w)
                 | None \<Rightarrow> (Inr localTemplatesDir, w\<lparr>cache := Entries []\<rparr>))
           else (Inr localTemplatesDir, w)))"

text \<open>
  Lines 54 to 127, the part of \<^verbatim>\<open>fetchTemplates\<close> before the reconciliation: clone,
  checkout, log line, the digest of the clone (line 113) and the local template directory.
  The result is the digest and the path of the local template directory.
\<close>

definition retrieve ::
  "env \<Rightarrow> string \<Rightarrow> string \<Rightarrow> string \<Rightarrow> world \<Rightarrow> (error + string \<times> string) \<times> world"
where
  "retrieve e extractedPath templateURL refName w =
     (case cloneStep e extractedPath templateURL refName w of
        (Some err, w1) \<Rightarrow> (Inl err, w1)
      | (None, w1) \<Rightarrow>
     (case checkoutStep e extractedPath refName w1 of
        (Some err, w2) \<Rightarrow> (Inl err, w2)
      | (None, w2) \<Rightarrow>
     (case debugLogStep e extractedPath w2 of
        (Some err, w3) \<Rightarrow> (Inl err, w3)
      | (None, w3) \<Rightarrow>
     (case getGitSHAFor e extractedPath of
        Inl err \<Rightarrow> (Inl (ErrGitSHA err), record_event (GetGitSHA extractedPath) w3)
      | Inr sha \<Rightarrow>
     (case prepareCache e (record_event (GetGitSHA extractedPath) w3) of
        (Inl err, w4) \<Rightarrow> (Inl err, w4)
      | (Inr localTemplatesDir, w4) \<Rightarrow> (Inr (sha, localTemplatesDir), w4))))))"

text \<open>
  Lines 54 to 140, the part of \<^verbatim>\<open>fetchTemplates\<close> that runs with the temporary
  directory: retrieval, reconciliation and the check of the protected languages.
\<close>

definition fetchInto ::
  "env \<Rightarrow> string \<Rightarrow> string \<Rightarrow> string \<Rightarrow> string \<Rightarrow> bool \<Rightarrow> world \<Rightarrow> error option \<times> world"
where
  "fetchInto e extractedPath templateURL refName templateName overwriteTemplates w =
     (case retrieve e extractedPath templateURL refName w of
        (Inl err, w4) \<Rightarrow> (Some err, w4)
      | (Inr (sha, localTemplatesDir), w4) \<Rightarrow>
          (case moveTemplates e localTemplatesDir extractedPath templateName overwriteTemplates
                  templateURL refName sha w4 of
             (Inl err, w5) \<Rightarrow> (Some err, w5)
           | (Inr (protected, fetched), w5) \<Rightarrow>
               if length protected > 0
               then (Some (ErrUnableToOverwrite protected), w5)
               else (None, w5)))"

text \<open>
  \<^verbatim>\<open>fetchTemplates\<close> (lines 31 to 141). The deferred \<^verbatim>\<open>os.RemoveAll\<close> of line 49 runs
  on every return after the temporary directory was made, unless \<^verbatim>\<open>pullDebug\<close> is set.
\<close>

definition fetchTemplates ::
  "env \<Rightarrow> string \<Rightarrow> string \<Rightarrow> string \<Rightarrow> bool \<Rightarrow> world \<Rightarrow> error option \<times> world"
where
  "fetchTemplates e templateURL refName templateName overwriteTemplates w =
     (if length templateURL = 0
      then (Some ErrPassValidTemplateURL, w)
      else
        (case osMkdirTemp e of
           Inl err \<Rightarrow> (Some (ErrTempDir err), record_event MkdirTemp w)
         | Inr extractedPath \<Rightarrow>
             (case fetchInto e extractedPath templateURL refName templateName overwriteTemplates
                     (record_event MkdirTemp w) of
                (result, w') \<Rightarrow>
                  (result,
                   if \<not> pullDebug e then record_event (RemoveAll extractedPath) w' else w'))))"

subsection \<open>Notions used in the statements\<close>

text \<open>
  The name under which \<^verbatim>\<open>moveTemplates\<close> writes and reports the candidate \<open>language\<close>
  (lines 195 to 208): the language itself, followed by \<^verbatim>\<open>@\<close> and the ref when there is one.
\<close>

definition bundleName :: "string \<Rightarrow> string \<Rightarrow> string" where
  "bundleName refName language =
     (if refName \<noteq> '''' then language @ ''@'' @ refName else language)"

text \<open>
  The bundle directory \<open>languageDest\<close> as \<^verbatim>\<open>moveTemplates\<close> leaves it: the files of the
  candidate and the provenance record in \<^verbatim>\<open>meta.json\<close>.
\<close>

definition writtenBundle ::
  "env \<Rightarrow> string \<Rightarrow> string \<Rightarrow> string \<Rightarrow> string \<Rightarrow> (string \<times> node) list \<Rightarrow> node"
where
  "writtenBundle e repository refName sha languageDest files =
     Dir (AList.update ''meta.json''
            (File (Document (templateMetaJSON
               \<lparr>Repository = repository, RefName = refName, Sha = sha,
                WrittenAt = timeNow e languageDest\<rparr>)))
            files)"

text \<open>
  Writing the record of a bundle and reading it back: the decoded record, or \<open>None\<close>
  when the write or the reading fails.
\<close>

definition writeThenRead ::
  "env \<Rightarrow> string \<Rightarrow> string \<Rightarrow> string \<Rightarrow> string \<Rightarrow> (string \<times> node) list \<Rightarrow> TemplateMeta option"
where
  "writeThenRead e languageDest repository refName sha entries =
     (case writeTemplateMeta e languageDest repository refName sha entries of
        Inl err \<Rightarrow> None
      | Inr written \<Rightarrow> readTemplateMeta written languageDest)"

text \<open>The entry of the local template directory with a given name.\<close>

definition cacheLookup :: "world \<Rightarrow> string \<Rightarrow> node option" where
  "cacheLookup w name = (case cache w of Entries entries \<Rightarrow> map_of entries name | _ \<Rightarrow> None)"

text \<open>The calls that a run added to the trace.\<close>

definition newEvents :: "world \<Rightarrow> world \<Rightarrow> event list" where
  "newEvents w w' = drop (length (trace w)) (trace w')"

text \<open>The calls of a clone command, and the checkouts.\<close>

fun isInvoke :: "event \<Rightarrow> bool" where
  "isInvoke (Invoke cmd args) = True"
| "isInvoke ev = False"

fun isCheckout :: "event \<Rightarrow> bool" where
  "isCheckout (Checkout d commit) = True"
| "isCheckout ev = False"

text \<open>The calls that a run of \<^verbatim>\<open>fetchTemplates\<close> makes.\<close>

definition fetchEvents :: "env \<Rightarrow> string \<Rightarrow> string \<Rightarrow> string \<Rightarrow> bool \<Rightarrow> world \<Rightarrow> event list" where
  "fetchEvents e templateURL refName templateName overwriteTemplates w =
     newEvents w (snd (fetchTemplates e templateURL refName templateName overwriteTemplates w))"

subsection \<open>A concrete run\<close>

text \<open>
  An environment in which every call succeeds: the clone leaves a tree whose template
  root holds the bundles \<open>node\<close> and \<open>python\<close> and a regular file.
\<close>

definition nodeFiles :: "(string \<times> node) list" where
  "nodeFiles = [(''template.yml'', File (Bytes ''language: node''))]"

definition pythonFiles :: "(string \<times> node) list" where
  "pythonFiles =
     [(''template.yml'', File (Bytes ''language: python'')),
      (''index.py'', File (Bytes ''new''))]"

definition pythonOld :: "(string \<times> node) list" where
  "pythonOld = [(''index.py'', File (Bytes ''old''))]"

definition retrievedTree :: "(string \<times> node) list" where
  "retrievedTree =
     [(''README.md'', File (Bytes ''templates'')),
      (''node'', Dir nodeFiles),
      (''python'', Dir pythonFiles)]"

definition exampleRepo :: string where
  "exampleRepo = ''https://example.com/repo.git''"

definition tempDir :: string where
  "tempDir = ''/tmp/openfaas-templates-1''"

definition headDigest :: string where
  "headDigest = ''8f5bd6b1a4f0c1d2e3f405162738495a6b7c8d9e''"

definition env0 :: env where
  "env0 =
     \<lparr>pullDebug = False,
      envFaasDebug = '''',
      osMkdirTemp = Inr tempDir,
      gitCloneInvoke = (\<lambda>cmd args. None),
      gitCheckout = (\<lambda>d commit. ExecResult 0 '''' ''''),
      gitLogOneline = (\<lambda>d. ExecResult 0 '''' ''''),
      getGitSHAFor = (\<lambda>d. Inr headDigest),
      osGetwd = Inr ''/work'',
      osMkdirAll = (\<lambda>path. None),
      osReadDir = (\<lambda>path. Some retrievedTree),
      osStat = (\<lambda>path. StatOk),
      copyFilesError = (\<lambda>dest. None),
      osWriteFile = (\<lambda>path. None),
      timeNow = (\<lambda>dest. 1700000000)\<rparr>"

text \<open>The same environment with a disk on which no \<^verbatim>\<open>meta.json\<close> can be written.\<close>

definition envNoMeta :: env where
  "envNoMeta = env0\<lparr>osWriteFile := (\<lambda>path. Some ''no space left on device'')\<rparr>"

text \<open>The same environment with a disk to which the bundle \<open>node\<close> cannot be copied.\<close>

definition envNoCopy :: env where
  "envNoCopy =
     env0\<lparr>copyFilesError :=
            (\<lambda>dest. if dest = ''node'' then Some ''permission denied'' else None)\<rparr>"

text \<open>
  Three local template directories: an empty one, one that holds an older \<open>python\<close>
  bundle, and one that holds an older bundle \<open>python@v1\<close>.
\<close>

definition emptyCache :: world where
  "emptyCache = \<lparr>cache = Entries [], trace = []\<rparr>"

definition pythonCache :: world where
  "pythonCache = \<lparr>cache = Entries [(''python'', Dir pythonOld)], trace = []\<rparr>"

definition pinnedCache :: world where
  "pinnedCache = \<lparr>cache = Entries [(''python@v1'', Dir pythonOld)], trace = []\<rparr>"

text \<open>A local template directory with a regular file beside the \<open>python\<close> bundle.\<close>

definition mixedCache :: world where
  "mixedCache =
     \<lparr>cache = Entries [(''LICENSE'', File (Bytes ''MIT'')), (''python'', Dir pythonOld)],
      trace = []\<rparr>"

text \<open>The path of the local template directory in the concrete runs.\<close>

definition localDir :: string where
  "localDir = ''/work/template''"

text \<open>
  A local repository path whose last byte is the Latin-1 letter e with an acute accent,
  which is not valid UTF-8.
\<close>

definition latin1Path :: string where
  "latin1Path = ''/srv/caf'' @ [CHR 0xE9]"

section \<open>Properties\<close>

subsection \<open>The missing-template resolver\<close>

lemma getMissingLoop_filter:
  "getMissingLoop stat dir fns missing =
     missing @ filter (\<lambda>l. stat (dir @ ''/'' @ l) = StatNotExist)
                 (map (\<lambda>(name, function). Language function) fns)"
  by (induction fns arbitrary: missing) (auto simp: Let_def)

text \<open>
  Claim C4, as stated, at a cache that holds nothing. For a stack whose two functions are
  both written in perl the resolver returns perl twice, so its result is not free of
  duplicates. For a stack that declares ruby before perl, the two orders in which the
  loop may visit the map give the two orders of the result, so the order of the
  declaration is not kept.
\<close>

theorem getMissingTemplates_duplicates_counterexample:
  "fst (getMissingTemplates statNothing twoPerlFunctions ''./template'') = [''perl'', ''perl'']
   \<and> \<not> distinct (fst (getMissingTemplates statNothing twoPerlFunctions ''./template''))
   \<and> fst (getMissingTemplates statNothing rubyPerlFunctions ''./template'') = [''ruby'', ''perl'']
   \<and> fst (getMissingTemplates statNothing (rev rubyPerlFunctions) ''./template'') =
       [''perl'', ''ruby'']"
  by (simp add: getMissingTemplates_def twoPerlFunctions_def rubyPerlFunctions_def
      statNothing_def)

text \<open>
  Claim C4, amended: the resolver returns no error, and its result is the list of the
  languages of the functions in the order the map is iterated, one entry for each function
  (so a language that several functions share is repeated), restricted to the languages
  whose path below the cache directory does not exist. As a set the result is the
  difference of the declared languages and the cache contents.
\<close>

theorem getMissingTemplates_set_difference:
  "snd (getMissingTemplates stat functions templatesDir) = None
   \<and> fst (getMissingTemplates stat functions templatesDir) =
       filter (\<lambda>l. l \<notin> cachePresent stat templatesDir)
         (map (\<lambda>(name, function). Language function) functions)
   \<and> set (fst (getMissingTemplates stat functions templatesDir)) =
       declaredLanguages functions - cachePresent stat templatesDir"
  by (auto simp: getMissingTemplates_def getMissingLoop_filter declaredLanguages_def
      cachePresent_def)

subsection \<open>The pull orchestrator\<close>

lemma pullStackTemplates_append:
  "pullStackTemplates sp pt ow (xs @ ys) srcs w =
     (case pullStackTemplates sp pt ow xs srcs w of
        (Some err, w') \<Rightarrow> (Some err, w')
      | (None, w') \<Rightarrow> pullStackTemplates sp pt ow ys srcs w')"
  by (induction xs arbitrary: w) (auto simp: Let_def split: prod.splits option.splits)

text \<open>
  Claim C5, as stated, at the names \<open>my_powershell\<close> and \<open>my_rust\<close> with no configured
  source: the store pull of the first name fails, the orchestrator returns that error, and
  the log shows that the second name was never pulled.
\<close>

theorem pullStackTemplates_abort_counterexample:
  "pullStackTemplates loggingStorePull loggingPullTemplate True
     [''my_powershell'', ''my_rust''] [] []
   = (Some ''template not found in store'', [''my_powershell''])"
  by (simp add: loggingStorePull_def)

text \<open>
  Claim C5, amended: the names are processed in order up to the first one whose pull fails;
  the orchestrator returns that error at once, in the state the failed pull left, and
  processes none of the names after it.
\<close>

theorem pullStackTemplates_stops_at_first_failure:
  assumes "pullStackTemplates sp pt ow before srcs w = (None, w1)"
    and "pullStackTemplates sp pt ow [val] srcs w1 = (Some err, w2)"
  shows "pullStackTemplates sp pt ow (before @ val # rest) srcs w = (Some err, w2)"
proof -
  have "pullStackTemplates sp pt ow ([val] @ rest) srcs w1 = (Some err, w2)"
    using assms(2) by (simp only: pullStackTemplates_append) simp
  then show ?thesis
    using assms(1) by (simp add: pullStackTemplates_append)
qed

theorem pullStackTemplates_stops_at_first_failure_witness:
  "pullStackTemplates loggingStorePull loggingPullTemplate True
     ([''perl-alpine''] @ ''my_powershell'' # [''my_rust''])
     [\<lparr>Name = ''my_rust'', Source = ''https://github.com/openfaas-incubator/openfaas-rust-template''\<rparr>]
     []
   = (Some ''template not found in store'', [''perl-alpine'', ''my_powershell''])"
proof -
  have a: "pullStackTemplates loggingStorePull loggingPullTemplate True [''perl-alpine'']
      [\<lparr>Name = ''my_rust'', Source = ''https://github.com/openfaas-incubator/openfaas-rust-template''\<rparr>]
      [] = (None, [''perl-alpine''])"
    by (simp add: loggingStorePull_def)
  have b: "pullStackTemplates loggingStorePull loggingPullTemplate True [''my_powershell'']
      [\<lparr>Name = ''my_rust'', Source = ''https://github.com/openfaas-incubator/openfaas-rust-template''\<rparr>]
      [''perl-alpine''] = (Some ''template not found in store'', [''perl-alpine'', ''my_powershell''])"
    by (simp add: loggingStorePull_def)
  show ?thesis
    by (rule pullStackTemplates_stops_at_first_failure [OF a b])
qed

subsection \<open>Evaluation of the concrete run\<close>

lemmas run_defs =
  fetchTemplates_def fetchInto_def retrieve_def cloneStep_def cloneCommand_def checkoutStep_def
  debugLogStep_def prepareCache_def moveTemplates_def record_event_def canWriteLanguage_def
  CopyFiles_def writeTemplateMeta_def jsonMarshal_def hasPrefix_def trimPrefix_def ShaPrefix_def
  matchesSHA_def isHexDigit_def Let_def cacheLookup_def fetchEvents_def newEvents_def
  writtenBundle_def

lemmas fixture_defs =
  env0_def envNoMeta_def envNoCopy_def emptyCache_def pythonCache_def pinnedCache_def
  mixedCache_def retrievedTree_def localDir_def

lemma exampleRepo_nonempty: "exampleRepo \<noteq> ''''"
  by (simp add: exampleRepo_def)

subsection \<open>Provenance records\<close>

lemma validFrom_jsonCoerceFrom: "validFrom k s \<Longrightarrow> jsonCoerceFrom k s = s"
  by (induction s arbitrary: k) (auto simp: Let_def simp del: runeSize.simps)

lemma validUTF8_jsonCoerce: "validUTF8 s \<Longrightarrow> jsonCoerce s = s"
  by (simp add: validUTF8_def jsonCoerce_def validFrom_jsonCoerceFrom)

lemma jsonUnmarshal_templateMetaJSON:
  "jsonUnmarshal (templateMetaJSON m) =
     Some \<lparr>Repository = jsonCoerce (Repository m), RefName = jsonCoerce (RefName m),
           Sha = jsonCoerce (Sha m), WrittenAt = WrittenAt m\<rparr>"
  by (simp add: jsonUnmarshal_def templateMetaJSON_def stringMember_def timeMember_def
      jsonCoerce_def)

lemma writeTemplateMeta_file:
  "writeTemplateMeta e dest repo ref sha entries = Inr written \<Longrightarrow>
   readMetaFile written dest =
     Some (templateMetaJSON
             \<lparr>Repository = repo, RefName = ref, Sha = sha, WrittenAt = timeNow e dest\<rparr>)"
  by (auto simp: writeTemplateMeta_def Let_def jsonMarshal_def readMetaFile_def update_conv'
      split: option.splits node.splits sum.splits)

text \<open>
  Claim C8, as stated, at a local repository whose path is not valid UTF-8: the record
  read back holds the path with its last byte replaced by U+FFFD, which is not the
  repository that was supplied.
\<close>

theorem writeTemplateMeta_roundtrip_counterexample:
  "writeThenRead env0 ''python'' latin1Path '''' headDigest [(''python'', Dir pythonFiles)] =
     Some \<lparr>Repository = ''/srv/caf'' @ [CHR 0xEF, CHR 0xBF, CHR 0xBD], RefName = '''',
           Sha = headDigest, WrittenAt = 1700000000\<rparr>
   \<and> ''/srv/caf'' @ [CHR 0xEF, CHR 0xBF, CHR 0xBD] \<noteq> latin1Path"
  by (simp add: writeThenRead_def writeTemplateMeta_def jsonMarshal_def readTemplateMeta_def
      readMetaFile_def jsonUnmarshal_templateMetaJSON jsonCoerce_def Let_def byteOf_def
      between_def replacementChar_def latin1Path_def headDigest_def env0_def update_conv')

text \<open>
  Claim C8, amended: after \<^verbatim>\<open>writeTemplateMeta\<close> has written the record of a bundle,
  reading the file \<^verbatim>\<open>meta.json\<close> of the bundle back and decoding it gives the
  repository, the ref name and the digest that were supplied with every byte that is not
  part of a valid UTF-8 sequence replaced by U+FFFD (and the instant of the write); it
  gives exactly what was supplied when the three strings are valid UTF-8. The document
  in the file has the member \<^verbatim>\<open>ref_name\<close> only when the ref name is not empty and the
  member \<^verbatim>\<open>sha\<close> only when the digest is not empty.
\<close>

theorem writeTemplateMeta_roundtrip:
  assumes "writeTemplateMeta e languageDest repository refName sha entries = Inr written"
  shows "readTemplateMeta written languageDest =
           Some \<lparr>Repository = jsonCoerce repository, RefName = jsonCoerce refName,
                 Sha = jsonCoerce sha, WrittenAt = timeNow e languageDest\<rparr>
       \<and> (validUTF8 repository \<and> validUTF8 refName \<and> validUTF8 sha \<longrightarrow>
            readTemplateMeta written languageDest =
              Some \<lparr>Repository = repository, RefName = refName, Sha = sha,
                    WrittenAt = timeNow e languageDest\<rparr>)
       \<and> map_option jsonKeys (readMetaFile written languageDest) =
           Some ([''repository'']
                 @ (if refName = '''' then [] else [''ref_name''])
                 @ (if sha = '''' then [] else [''sha''])
                 @ [''written_at''])"
proof -
  note wf = writeTemplateMeta_file [OF assms]
  have general: "readTemplateMeta written languageDest =
           Some \<lparr>Repository = jsonCoerce repository, RefName = jsonCoerce refName,
                 Sha = jsonCoerce sha, WrittenAt = timeNow e languageDest\<rparr>"
    by (simp add: readTemplateMeta_def wf jsonUnmarshal_templateMetaJSON)
  have keys: "map_option jsonKeys (readMetaFile written languageDest) =
           Some ([''repository'']
                 @ (if refName = '''' then [] else [''ref_name''])
                 @ (if sha = '''' then [] else [''sha''])
                 @ [''written_at''])"
    by (simp add: wf jsonKeys_def templateMetaJSON_def)
  show ?thesis
    using general keys by (simp add: validUTF8_jsonCoerce)
qed

theorem writeTemplateMeta_roundtrip_witness:
  "validUTF8 exampleRepo \<and> validUTF8 '''' \<and> validUTF8 headDigest
   \<and> writeTemplateMeta env0 ''python'' exampleRepo '''' headDigest [(''python'', Dir pythonFiles)] =
       Inr [(''python'', writtenBundle env0 exampleRepo '''' headDigest ''python'' pythonFiles)]
   \<and> readTemplateMeta
        [(''python'', writtenBundle env0 exampleRepo '''' headDigest ''python'' pythonFiles)]
        ''python'' =
       Some \<lparr>Repository = exampleRepo, RefName = '''', Sha = headDigest, WrittenAt = 1700000000\<rparr>
   \<and> map_option jsonKeys
        (readMetaFile
           [(''python'', writtenBundle env0 exampleRepo '''' headDigest ''python'' pythonFiles)]
           ''python'') =
       Some [''repository'', ''sha'', ''written_at'']"
proof -
  have w: "writeTemplateMeta env0 ''python'' exampleRepo '''' headDigest
             [(''python'', Dir pythonFiles)] =
           Inr [(''python'', writtenBundle env0 exampleRepo '''' headDigest ''python'' pythonFiles)]"
    by (simp add: writeTemplateMeta_def jsonMarshal_def writtenBundle_def env0_def)
  have v1: "validUTF8 exampleRepo"
    by (simp add: validUTF8_def exampleRepo_def Let_def byteOf_def)
  have v2: "validUTF8 ''''"
    by (simp add: validUTF8_def)
  have v3: "validUTF8 headDigest"
    by (simp add: validUTF8_def headDigest_def Let_def byteOf_def)
  have n: "timeNow env0 ''python'' = 1700000000"
    by (simp add: env0_def)
  have s: "headDigest \<noteq> ''''"
    by (simp add: headDigest_def)
  show ?thesis
    using writeTemplateMeta_roundtrip [OF w] w v1 v2 v3 n s
    by (simp add: validUTF8_jsonCoerce)
qed

subsection \<open>Reconciliation\<close>

lemma existingLoop_dirNames:
  "existingLoop e d c acc = Inr ex \<Longrightarrow> ex = acc @ dirNames c"
  by (induction e d c acc rule: existingLoop.induct)
     (auto simp: dirNames_def Let_def split: if_splits)

lemma dirNames_Cons_Dir: "dirNames ((name, Dir files) # rest) = name # dirNames rest"
  by (simp add: dirNames_def)

lemma dirNames_Cons_File: "dirNames ((name, File d) # rest) = dirNames rest"
  by (simp add: dirNames_def)


lemma dirNames_member:
  "name \<in> set (dirNames c) \<longleftrightarrow> (\<exists>files. (name, Dir files) \<in> set c)"
proof (induction c)
  case Nil
  then show ?case by (simp add: dirNames_def)
next
  case (Cons entry rest)
  obtain n nd where entry: "entry = (n, nd)" by (cases entry)
  show ?case
    using Cons entry by (cases nd) (auto simp: dirNames_Cons_Dir dirNames_Cons_File)
qed


lemma bundleName_inject: "bundleName ref a = bundleName ref b \<longleftrightarrow> a = b"
  by (simp add: bundleName_def)

text \<open>One step of the second loop at a bundle directory.\<close>

lemma moveLoop_Dir:
  "moveLoop e ex ow repo ref sha ((name, Dir files) # rest) s =
     (if canWriteLanguage ex name ow
      then (case CopyFiles e files (bundleName ref name) (cacheEntries s) of
              Inl err \<Rightarrow>
                (Some (ErrCopyFiles err),
                 s\<lparr>fetchedLanguages := fetchedLanguages s @ [bundleName ref name]\<rparr>)
            | Inr copied \<Rightarrow>
                (case writeTemplateMeta e (bundleName ref name) repo ref sha copied of
                   Inl err \<Rightarrow>
                     (Some err,
                      s\<lparr>fetchedLanguages := fetchedLanguages s @ [bundleName ref name],
                        cacheEntries := copied\<rparr>)
                 | Inr written \<Rightarrow>
                     moveLoop e ex ow repo ref sha rest
                       (s\<lparr>fetchedLanguages := fetchedLanguages s @ [bundleName ref name],
                          cacheEntries := written\<rparr>)))
      else moveLoop e ex ow repo ref sha rest
             (s\<lparr>protectedLanguages := protectedLanguages s @ [bundleName ref name]\<rparr>))"
  by (cases "ref = []") (simp_all add: Let_def bundleName_def cong: sum.case_cong)

lemma moveLoop_append:
  "moveLoop e ex ow repo ref sha (xs @ ys) s =
     (case moveLoop e ex ow repo ref sha xs s of
        (Some err, s') \<Rightarrow> (Some err, s')
      | (None, s') \<Rightarrow> moveLoop e ex ow repo ref sha ys s')"
proof (induction xs arbitrary: s)
  case Nil
  then show ?case by simp
next
  case (Cons entry rest)
  obtain name nd where entry: "entry = (name, nd)" by (cases entry)
  show ?case
  proof (cases nd)
    case (File d)
    with Cons entry show ?thesis by simp
  next
    case (Dir files)
    with Cons entry show ?thesis
      by (simp add: moveLoop_Dir del: moveLoop.simps(3) split: sum.splits)
  qed
qed

lemma CopyFiles_frame:
  "CopyFiles e src dest entries = Inr copied \<Longrightarrow> k \<noteq> dest \<Longrightarrow> map_of copied k = map_of entries k"
  by (auto simp: CopyFiles_def update_conv' split: option.splits node.splits)

lemma CopyFiles_dest:
  "CopyFiles e src dest entries = Inr copied \<Longrightarrow> map_of copied dest = Some (Dir src)"
  by (auto simp: CopyFiles_def update_conv' split: option.splits node.splits)

lemma writeTemplateMeta_frame:
  "writeTemplateMeta e dest repo ref sha entries = Inr written \<Longrightarrow> k \<noteq> dest \<Longrightarrow>
   map_of written k = map_of entries k"
  by (auto simp: writeTemplateMeta_def Let_def update_conv'
      split: option.splits node.splits sum.splits)


text \<open>The two slices after a run of the second loop that ended without an error.\<close>

lemma moveLoop_lists:
  "moveLoop e ex ow repo ref sha tree s = (None, s') \<Longrightarrow>
   fetchedLanguages s' = fetchedLanguages s
      @ map (bundleName ref) (filter (\<lambda>n. canWriteLanguage ex n ow) (dirNames tree))
   \<and> protectedLanguages s' = protectedLanguages s
      @ map (bundleName ref) (filter (\<lambda>n. \<not> canWriteLanguage ex n ow) (dirNames tree))"
proof (induction tree arbitrary: s)
  case Nil
  then show ?case by (simp add: dirNames_def)
next
  case (Cons entry rest)
  obtain name nd where entry: "entry = (name, nd)" by (cases entry)
  show ?case
  proof (cases nd)
    case (File d)
    with Cons entry show ?thesis by (simp add: dirNames_Cons_File)
  next
    case (Dir files)
    with Cons.prems entry show ?thesis
      by (auto simp: moveLoop_Dir dirNames_Cons_Dir simp del: moveLoop.simps(3)
          split: if_splits sum.splits dest!: Cons.IH)
  qed
qed

text \<open>
  The second loop writes to no entry of the cache but the destinations of the candidates
  it approves, whether it ends with an error or not.
\<close>

lemma moveLoop_frame:
  "moveLoop e ex ow repo ref sha tree s = (r, s') \<Longrightarrow>
   k \<notin> set (map (bundleName ref) (filter (\<lambda>n. canWriteLanguage ex n ow) (dirNames tree))) \<Longrightarrow>
   map_of (cacheEntries s') k = map_of (cacheEntries s) k"
proof (induction tree arbitrary: s)
  case Nil
  then show ?case by simp
next
  case (Cons entry rest)
  obtain name nd where entry: "entry = (name, nd)" by (cases entry)
  show ?case
  proof (cases nd)
    case (File d)
    with Cons entry show ?thesis by (simp add: dirNames_Cons_File)
  next
    case (Dir files)
    show ?thesis
    proof (cases "canWriteLanguage ex name ow")
      case False
      with Cons Dir entry show ?thesis
        by (simp add: moveLoop_Dir dirNames_Cons_Dir del: moveLoop.simps(3))
    next
      case True
      from True Cons.prems(2) entry Dir have kd: "k \<noteq> bundleName ref name"
        and krest: "k \<notin> set (map (bundleName ref)
                      (filter (\<lambda>n. canWriteLanguage ex n ow) (dirNames rest)))"
        by (auto simp: dirNames_Cons_Dir)
      show ?thesis
      proof (cases "CopyFiles e files (bundleName ref name) (cacheEntries s)")
        case (Inl err)
        with True Cons.prems(1) entry Dir show ?thesis
          by (auto simp: moveLoop_Dir simp del: moveLoop.simps(3))
      next
        case (Inr copied)
        note cp = this
        show ?thesis
        proof (cases "writeTemplateMeta e (bundleName ref name) repo ref sha copied")
          case (Inl err)
          with True cp Cons.prems(1) entry Dir CopyFiles_frame[OF cp kd] show ?thesis
            by (auto simp: moveLoop_Dir simp del: moveLoop.simps(3))
        next
          case (Inr written)
          with True cp Cons.prems(1) entry Dir
          have run: "moveLoop e ex ow repo ref sha rest
                       (s\<lparr>fetchedLanguages := fetchedLanguages s @ [bundleName ref name],
                          cacheEntries := written\<rparr>) = (r, s')"
            by (simp add: moveLoop_Dir del: moveLoop.simps(3))
          have "map_of (cacheEntries s') k = map_of written k"
            using Cons.IH[OF run krest] by simp
          then show ?thesis
            using writeTemplateMeta_frame[OF Inr kd] CopyFiles_frame[OF cp kd] by simp
        qed
      qed
    qed
  qed
qed


text \<open>The shape of every run of \<^verbatim>\<open>moveTemplates\<close> on a readable cache and a readable tree.\<close>

lemma moveTemplates_cases:
  assumes "cache w = Entries c"
    and "osReadDir e (xp @ ''/template'') = Some tree"
    and "moveTemplates e ldir xp tn ow repo ref sha w = (res, w')"
  shows "(w' = w \<and> (\<exists>err. res = Inl err))
       \<or> (\<exists>r s. existingLoop e ldir c [] = Inr (dirNames c)
            \<and> moveLoop e (dirNames c) ow repo ref sha tree
                 \<lparr>fetchedLanguages = [], protectedLanguages = [], cacheEntries = c\<rparr> = (r, s)
            \<and> w' = w\<lparr>cache := Entries (cacheEntries s)\<rparr>
            \<and> res = (case r of Some err \<Rightarrow> Inl err
                              | None \<Rightarrow> Inr (protectedLanguages s, fetchedLanguages s)))"
proof (cases "existingLoop e ldir c []")
  case (Inl err)
  with assms show ?thesis by (auto simp: moveTemplates_def)
next
  case (Inr ex)
  from existingLoop_dirNames[OF Inr] have ex: "ex = dirNames c" by simp
  obtain r s where run: "moveLoop e (dirNames c) ow repo ref sha tree
                 \<lparr>fetchedLanguages = [], protectedLanguages = [], cacheEntries = c\<rparr> = (r, s)"
    by (cases "moveLoop e (dirNames c) ow repo ref sha tree
                 \<lparr>fetchedLanguages = [], protectedLanguages = [], cacheEntries = c\<rparr>")
  show ?thesis
    using assms Inr ex run
    by (cases r) (auto simp: moveTemplates_def)
qed

lemma moveTemplates_success:
  assumes "cache w = Entries c"
    and "osReadDir e (xp @ ''/template'') = Some tree"
    and "moveTemplates e ldir xp tn ow repo ref sha w = (Inr (protected, fetched), w')"
  shows "\<exists>s. existingLoop e ldir c [] = Inr (dirNames c)
            \<and> moveLoop e (dirNames c) ow repo ref sha tree
                 \<lparr>fetchedLanguages = [], protectedLanguages = [], cacheEntries = c\<rparr> = (None, s)
            \<and> w' = w\<lparr>cache := Entries (cacheEntries s)\<rparr>
            \<and> protected = protectedLanguages s \<and> fetched = fetchedLanguages s"
  using moveTemplates_cases[OF assms] by (auto split: option.splits)

text \<open>
  Every run of \<^verbatim>\<open>moveTemplates\<close> leaves alone the entries of the cache that are not
  destinations of approved candidates.
\<close>

lemma moveTemplates_frame:
  assumes "cache w = Entries c"
    and "osReadDir e (xp @ ''/template'') = Some tree"
    and "moveTemplates e ldir xp tn ow repo ref sha w = (res, w')"
    and "k \<notin> set (map (bundleName ref)
                 (filter (\<lambda>n. canWriteLanguage (dirNames c) n ow) (dirNames tree)))"
  shows "cacheLookup w' k = cacheLookup w k"
  using moveTemplates_cases[OF assms(1-3)] assms(1)
proof (elim disjE exE conjE)
  assume "w' = w"
  then show ?thesis by simp
next
  fix r s
  assume run: "moveLoop e (dirNames c) ow repo ref sha tree
                 \<lparr>fetchedLanguages = [], protectedLanguages = [], cacheEntries = c\<rparr> = (r, s)"
    and w': "w' = w\<lparr>cache := Entries (cacheEntries s)\<rparr>"
  from moveLoop_frame[OF run assms(4)] w' assms(1)
  show ?thesis by (simp add: cacheLookup_def)
qed

text \<open>
  Claim C9: reconciliation looks at directories only. The existing bundle names are the
  names of the directories of the cache, so a regular file at the root of the cache is
  not among them; the fetched and the protected names come from the directories of the
  template root of the retrieved tree; and for a regular file there, nothing is written
  to the cache under its name and its name is neither fetched nor protected.
\<close>

theorem moveTemplates_only_directories:
  assumes "cache w = Entries c"
    and "osReadDir e (xp @ ''/template'') = Some tree"
    and "distinct (map fst tree)"
    and "moveTemplates e ldir xp tn ow repo ref sha w = (res, w')"
  shows "(\<forall>existing. existingLoop e ldir c [] = Inr existing \<longrightarrow> existing = dirNames c)
       \<and> (\<forall>protected fetched. res = Inr (protected, fetched) \<longrightarrow>
            fetched = map (bundleName ref)
                        (filter (\<lambda>n. canWriteLanguage (dirNames c) n ow) (dirNames tree))
          \<and> protected = map (bundleName ref)
                        (filter (\<lambda>n. \<not> canWriteLanguage (dirNames c) n ow) (dirNames tree)))
       \<and> (\<forall>name d. (name, File d) \<in> set tree \<longrightarrow>
            cacheLookup w' (bundleName ref name) = cacheLookup w (bundleName ref name)
          \<and> (\<forall>protected fetched. res = Inr (protected, fetched) \<longrightarrow>
                bundleName ref name \<notin> set fetched \<and> bundleName ref name \<notin> set protected))"
proof (intro conjI allI impI)
  fix existing
  assume "existingLoop e ldir c [] = Inr existing"
  from existingLoop_dirNames[OF this] show "existing = dirNames c" by simp
next
  fix protected fetched
  assume "res = Inr (protected, fetched)"
  with assms(4) have run: "moveTemplates e ldir xp tn ow repo ref sha w = (Inr (protected, fetched), w')"
    by simp
  from moveTemplates_success[OF assms(1,2) run] obtain s where
    s: "moveLoop e (dirNames c) ow repo ref sha tree
          \<lparr>fetchedLanguages = [], protectedLanguages = [], cacheEntries = c\<rparr> = (None, s)"
    and l: "protected = protectedLanguages s" "fetched = fetchedLanguages s"
    by blast
  from moveLoop_lists[OF s] l
  show "fetched = map (bundleName ref)
                        (filter (\<lambda>n. canWriteLanguage (dirNames c) n ow) (dirNames tree))"
    and "protected = map (bundleName ref)
                        (filter (\<lambda>n. \<not> canWriteLanguage (dirNames c) n ow) (dirNames tree))"
    by simp_all
next
  fix name d
  assume f: "(name, File d) \<in> set tree"
  have nd: "name \<notin> set (dirNames tree)"
  proof
    assume "name \<in> set (dirNames tree)"
    then obtain files where "(name, Dir files) \<in> set tree"
      by (auto simp: dirNames_member)
    with f assms(3) show False
      by (metis eq_key_imp_eq_value node.distinct(1))
  qed
  then have out: "bundleName ref name \<notin> bundleName ref ` set (dirNames tree)"
    by (auto simp: bundleName_inject)
  then have "bundleName ref name \<notin> set (map (bundleName ref)
                 (filter (\<lambda>n. canWriteLanguage (dirNames c) n ow) (dirNames tree)))"
    by auto
  from moveTemplates_frame[OF assms(1,2,4) this]
  show "cacheLookup w' (bundleName ref name) = cacheLookup w (bundleName ref name)" .
  fix protected fetched
  assume "res = Inr (protected, fetched)"
  with assms(4) have run: "moveTemplates e ldir xp tn ow repo ref sha w = (Inr (protected, fetched), w')"
    by simp
  from moveTemplates_success[OF assms(1,2) run] obtain s where
    s: "moveLoop e (dirNames c) ow repo ref sha tree
          \<lparr>fetchedLanguages = [], protectedLanguages = [], cacheEntries = c\<rparr> = (None, s)"
    and l: "protected = protectedLanguages s" "fetched = fetchedLanguages s"
    by blast
  from moveLoop_lists[OF s] l out
  show "bundleName ref name \<notin> set fetched" and "bundleName ref name \<notin> set protected"
    by auto
qed

theorem moveTemplates_only_directories_witness:
  "existingLoop env0 localDir
     [(''LICENSE'', File (Bytes ''MIT'')), (''python'', Dir pythonOld)] [] = Inr [''python'']
   \<and> fst (moveTemplates env0 localDir tempDir '''' False exampleRepo '''' headDigest mixedCache) =
       Inr ([''python''], [''node''])
   \<and> (''README.md'', File (Bytes ''templates'')) \<in> set retrievedTree
   \<and> cacheLookup
        (snd (moveTemplates env0 localDir tempDir '''' False exampleRepo '''' headDigest mixedCache))
        ''README.md'' = None"
proof -
  let ?run = "moveTemplates env0 localDir tempDir '''' False exampleRepo '''' headDigest mixedCache"
  have c: "cache mixedCache =
      Entries [(''LICENSE'', File (Bytes ''MIT'')), (''python'', Dir pythonOld)]"
    by (simp add: mixedCache_def)
  have t: "osReadDir env0 (tempDir @ ''/template'') = Some retrievedTree"
    by (simp add: env0_def)
  have d: "distinct (map fst retrievedTree)"
    by (simp add: retrievedTree_def)
  have r: "?run = (fst ?run, snd ?run)"
    by simp
  have ex: "existingLoop env0 localDir
     [(''LICENSE'', File (Bytes ''MIT'')), (''python'', Dir pythonOld)] [] = Inr [''python'']"
    by (simp add: env0_def)
  have res: "fst ?run = Inr ([''python''], [''node''])"
    by (simp add: run_defs fixture_defs)
  have f: "(''README.md'', File (Bytes ''templates'')) \<in> set retrievedTree"
    by (simp add: retrievedTree_def)
  have before: "cacheLookup mixedCache ''README.md'' = None"
    by (simp add: cacheLookup_def mixedCache_def)
  from moveTemplates_only_directories [OF c t d r] f before
  have "cacheLookup (snd ?run) ''README.md'' = None"
    by (auto simp: bundleName_def)
  with ex res f show ?thesis
    by simp
qed


text \<open>
  A run that the amended claim below does not cover: without overwriting and with the
  ref \<open>v1\<close>. Line 200 asks \<^verbatim>\<open>canWriteLanguage\<close> about the name \<open>python\<close>, which is not
  among the existing names, and lines 203 to 211 copy to \<open>python@v1\<close>: the bundle
  \<open>python@v1\<close> that the cache holds is replaced and no name is reported as protected.
\<close>

lemma moveTemplates_pinned_ref_unprotected:
  "cacheLookup pinnedCache ''python@v1'' = Some (Dir pythonOld)
   \<and> moveTemplates env0 localDir tempDir '''' False exampleRepo ''v1'' headDigest pinnedCache =
       (Inr ([], [''node@v1'', ''python@v1'']),
        \<lparr>cache = Entries
           [(''python@v1'', writtenBundle env0 exampleRepo ''v1'' headDigest ''python@v1'' pythonFiles),
            (''node@v1'', writtenBundle env0 exampleRepo ''v1'' headDigest ''node@v1'' nodeFiles)],
         trace = []\<rparr>)"
  by (simp add: run_defs fixture_defs)



text \<open>
  Claim C6, as stated, at an empty cache and a disk on which no \<^verbatim>\<open>meta.json\<close> can be
  written: after the copy of \<open>node\<close> the write of its record fails, and reconciliation
  returns that error instead of going on; \<open>python\<close>, the next candidate, is never copied.
\<close>

theorem moveTemplates_meta_failure_counterexample:
  "moveTemplates envNoMeta localDir tempDir '''' False exampleRepo '''' headDigest emptyCache =
     (Inl (ErrWriteMeta ''no space left on device''),
      \<lparr>cache = Entries [(''node'', Dir nodeFiles)], trace = []\<rparr>)"
  by (simp add: run_defs fixture_defs)

text \<open>
  Claim C6, amended: a failure to write the provenance record of a bundle whose files
  have been copied ends the reconciliation. When the candidates before the bundle were
  reconciled without an error, \<^verbatim>\<open>moveTemplates\<close> returns the error of the write (and no
  list of names); the files copied for the bundle stay in the cache, without a record; and
  the candidates after the bundle are not reconciled, whatever they are.
\<close>

theorem moveTemplates_meta_failure_aborts:
  assumes "cache w = Entries c"
    and "existingLoop e ldir c [] = Inr existing"
    and "osReadDir e (xp @ ''/template'') = Some (before @ (name, Dir files) # rest)"
    and "moveLoop e existing ow repo ref sha before
           \<lparr>fetchedLanguages = [], protectedLanguages = [], cacheEntries = c\<rparr> = (None, s1)"
    and "canWriteLanguage existing name ow"
    and "CopyFiles e files (bundleName ref name) (cacheEntries s1) = Inr copied"
    and "writeTemplateMeta e (bundleName ref name) repo ref sha copied = Inl err"
  shows "moveTemplates e ldir xp tn ow repo ref sha w = (Inl err, w\<lparr>cache := Entries copied\<rparr>)
       \<and> map_of copied (bundleName ref name) = Some (Dir files)"
proof -
  have "moveLoop e existing ow repo ref sha ((name, Dir files) # rest) s1 =
          (Some err, s1\<lparr>fetchedLanguages := fetchedLanguages s1 @ [bundleName ref name],
                        cacheEntries := copied\<rparr>)"
    using assms(5,6,7) by (simp add: moveLoop_Dir del: moveLoop.simps(3))
  then have "moveLoop e existing ow repo ref sha (before @ (name, Dir files) # rest)
           \<lparr>fetchedLanguages = [], protectedLanguages = [], cacheEntries = c\<rparr> =
          (Some err, s1\<lparr>fetchedLanguages := fetchedLanguages s1 @ [bundleName ref name],
                        cacheEntries := copied\<rparr>)"
    using assms(4) by (simp add: moveLoop_append)
  then have "moveTemplates e ldir xp tn ow repo ref sha w = (Inl err, w\<lparr>cache := Entries copied\<rparr>)"
    using assms(1,2,3) by (simp add: moveTemplates_def)
  then show ?thesis
    using CopyFiles_dest[OF assms(6)] by simp
qed

theorem moveTemplates_meta_failure_aborts_witness:
  "moveTemplates envNoMeta localDir tempDir '''' True exampleRepo ''v1'' headDigest pythonCache =
     (Inl (ErrWriteMeta ''no space left on device''),
      pythonCache\<lparr>cache := Entries [(''python'', Dir pythonOld), (''node@v1'', Dir nodeFiles)]\<rparr>)
   \<and> map_of [(''python'', Dir pythonOld), (''node@v1'', Dir nodeFiles)] (bundleName ''v1'' ''node'') =
       Some (Dir nodeFiles)"
proof -
  have c: "cache pythonCache = Entries [(''python'', Dir pythonOld)]"
    by (simp add: pythonCache_def)
  have ex: "existingLoop envNoMeta localDir [(''python'', Dir pythonOld)] [] = Inr [''python'']"
    by (simp add: envNoMeta_def env0_def)
  have t: "osReadDir envNoMeta (tempDir @ ''/template'') =
      Some ([(''README.md'', File (Bytes ''templates''))] @ (''node'', Dir nodeFiles)
              # [(''python'', Dir pythonFiles)])"
    by (simp add: envNoMeta_def env0_def retrievedTree_def)
  have b: "moveLoop envNoMeta [''python''] True exampleRepo ''v1'' headDigest
             [(''README.md'', File (Bytes ''templates''))]
             \<lparr>fetchedLanguages = [], protectedLanguages = [],
              cacheEntries = [(''python'', Dir pythonOld)]\<rparr> =
           (None, \<lparr>fetchedLanguages = [], protectedLanguages = [],
              cacheEntries = [(''python'', Dir pythonOld)]\<rparr>)"
    by simp
  have a: "canWriteLanguage [''python''] ''node'' True"
    by (simp add: canWriteLanguage_def)
  have cp: "CopyFiles envNoMeta nodeFiles (bundleName ''v1'' ''node'')
              (cacheEntries \<lparr>fetchedLanguages = [], protectedLanguages = [],
                 cacheEntries = [(''python'', Dir pythonOld)]\<rparr>) =
            Inr [(''python'', Dir pythonOld), (''node@v1'', Dir nodeFiles)]"
    by (simp add: CopyFiles_def envNoMeta_def env0_def bundleName_def)
  have wr: "writeTemplateMeta envNoMeta (bundleName ''v1'' ''node'') exampleRepo ''v1'' headDigest
              [(''python'', Dir pythonOld), (''node@v1'', Dir nodeFiles)] =
            Inl (ErrWriteMeta ''no space left on device'')"
    by (simp add: writeTemplateMeta_def jsonMarshal_def envNoMeta_def env0_def)
  show ?thesis
    by (rule moveTemplates_meta_failure_aborts [OF c ex t b a cp wr])
qed

subsection \<open>Synchronisation\<close>

lemma moveTemplates_trace:
  "moveTemplates e ldir xp tn ow repo ref sha w = (r, w') \<Longrightarrow> trace w' = trace w"
  by (auto simp: moveTemplates_def split: dirstate.splits sum.splits option.splits prod.splits)

lemma cloneStep_world:
  "cloneStep e xp url ref w = (r, w') \<Longrightarrow>
   w' = record_event (Invoke (fst (cloneCommand xp url ref)) (snd (cloneCommand xp url ref))) w
   \<and> r = map_option ErrGitClone
        (gitCloneInvoke e (fst (cloneCommand xp url ref)) (snd (cloneCommand xp url ref)))"
  by (auto simp: cloneStep_def split: prod.splits option.splits)

lemma checkoutStep_world:
  "checkoutStep e xp ref w = (r, w') \<Longrightarrow>
   cache w' = cache w \<and>
   (trace w' = trace w \<or> trace w' = trace w @ [Checkout xp (trimPrefix ref ShaPrefix)])"
  by (auto simp: checkoutStep_def Let_def record_event_def split: if_splits exec_result.splits)

lemma checkoutStep_valid:
  "checkoutStep e xp ref w = (r, w') \<Longrightarrow> hasPrefix ref ShaPrefix \<Longrightarrow>
   matchesSHA (trimPrefix ref ShaPrefix) \<Longrightarrow>
   trace w' = trace w @ [Checkout xp (trimPrefix ref ShaPrefix)]"
  by (auto simp: checkoutStep_def Let_def record_event_def hasPrefix_def ShaPrefix_def
      split: if_splits exec_result.splits)

lemma checkoutStep_none:
  "checkoutStep e xp ref w = (r, w') \<Longrightarrow> \<not> hasPrefix ref ShaPrefix \<Longrightarrow> w' = w \<and> r = None"
  by (auto simp: checkoutStep_def)

lemma checkoutStep_invalid:
  "hasPrefix ref ShaPrefix \<Longrightarrow> \<not> matchesSHA (trimPrefix ref ShaPrefix) \<Longrightarrow>
   checkoutStep e xp ref w = (Some (ErrInvalidSHA (trimPrefix ref ShaPrefix)), w)"
  by (auto simp: checkoutStep_def Let_def hasPrefix_def ShaPrefix_def)

lemma debugLogStep_world:
  "debugLogStep e xp w = (r, w') \<Longrightarrow>
   cache w' = cache w \<and> (trace w' = trace w \<or> trace w' = trace w @ [GitLog xp])"
  by (auto simp: debugLogStep_def record_event_def split: if_splits exec_result.splits)

lemma prepareCache_trace:
  "prepareCache e w = (r, w') \<Longrightarrow> trace w' = trace w"
  by (auto simp: prepareCache_def Let_def split: sum.splits if_splits option.splits)

lemma newEvents_append: "trace w' = trace w @ evs \<Longrightarrow> newEvents w w' = evs"
  by (simp add: newEvents_def)

lemma cloneCommand_cases:
  "cloneCommand xp url ref =
     (if ref = [] then (GitCloneDefault, \<lparr>arg_dir = xp, arg_repo = url, arg_refname = None\<rparr>)
      else if hasPrefix ref ShaPrefix
      then (GitCloneFullDepth, \<lparr>arg_dir = xp, arg_repo = url, arg_refname = None\<rparr>)
      else (GitCloneBranch, \<lparr>arg_dir = xp, arg_repo = url, arg_refname = Some ref\<rparr>))"
  by (simp add: cloneCommand_def Let_def)

lemma hasPrefix_nonempty: "hasPrefix ref ShaPrefix \<Longrightarrow> ref \<noteq> []"
  by (auto simp: hasPrefix_def ShaPrefix_def)

text \<open>The events of the retrieval phase.\<close>

lemma retrieve_events:
  assumes "retrieve e xp url ref w = (r, w')"
  shows "\<exists>evs. trace w' = trace w
            @ Invoke (fst (cloneCommand xp url ref)) (snd (cloneCommand xp url ref)) # evs
          \<and> filter isInvoke evs = []
          \<and> (\<not> (hasPrefix ref ShaPrefix \<and> matchesSHA (trimPrefix ref ShaPrefix)
                  \<and> gitCloneInvoke e (fst (cloneCommand xp url ref)) (snd (cloneCommand xp url ref)) = None)
               \<longrightarrow> filter isCheckout evs = [])
          \<and> (hasPrefix ref ShaPrefix \<and> matchesSHA (trimPrefix ref ShaPrefix)
               \<and> gitCloneInvoke e (fst (cloneCommand xp url ref)) (snd (cloneCommand xp url ref)) = None
               \<longrightarrow> take 1 evs = [Checkout xp (trimPrefix ref ShaPrefix)])"
proof -
  let ?inv = "Invoke (fst (cloneCommand xp url ref)) (snd (cloneCommand xp url ref))"
  let ?ok = "gitCloneInvoke e (fst (cloneCommand xp url ref)) (snd (cloneCommand xp url ref))"
  obtain r1 w1 where c1: "cloneStep e xp url ref w = (r1, w1)" by (cases "cloneStep e xp url ref w")
  from cloneStep_world[OF c1] have w1: "trace w1 = trace w @ [?inv]"
    and r1: "r1 = map_option ErrGitClone ?ok"
    by (simp_all add: record_event_def)
  show ?thesis
  proof (cases r1)
    case (Some err)
    with assms c1 have "w' = w1" by (simp add: retrieve_def)
    moreover from Some r1 have "?ok \<noteq> None" by auto
    ultimately show ?thesis using w1 by (intro exI[of _ "[]"]) simp
  next
    case None
    then have ok: "?ok = None" using r1 by simp
    obtain r2 w2 where c2: "checkoutStep e xp ref w1 = (r2, w2)"
      by (cases "checkoutStep e xp ref w1")
    define cevs where "cevs = drop (length (trace w1)) (trace w2)"
    have w2: "trace w2 = trace w1 @ cevs"
      and cevs: "cevs = [] \<or> cevs = [Checkout xp (trimPrefix ref ShaPrefix)]"
      using checkoutStep_world[OF c2] by (auto simp: cevs_def)
    have cnone: "\<not> hasPrefix ref ShaPrefix \<Longrightarrow> cevs = []"
      using checkoutStep_none[OF c2] by (simp add: cevs_def)
    have cvalid: "hasPrefix ref ShaPrefix \<Longrightarrow> matchesSHA (trimPrefix ref ShaPrefix) \<Longrightarrow>
        cevs = [Checkout xp (trimPrefix ref ShaPrefix)]"
      using checkoutStep_valid[OF c2] by (simp add: cevs_def)
    have cinvalid: "hasPrefix ref ShaPrefix \<Longrightarrow> \<not> matchesSHA (trimPrefix ref ShaPrefix) \<Longrightarrow>
        cevs = []"
      using checkoutStep_invalid[of ref e xp w1] c2 by (simp add: cevs_def)
    show ?thesis
    proof (cases r2)
      case (Some err)
      with assms c1 None c2 have "w' = w2" by (simp add: retrieve_def)
      then show ?thesis using w1 w2 cevs cnone cvalid cinvalid ok
        by (intro exI[of _ cevs]) auto
    next
      case r2: None
      obtain r3 w3 where c3: "debugLogStep e xp w2 = (r3, w3)"
        by (cases "debugLogStep e xp w2")
      define devs where "devs = drop (length (trace w2)) (trace w3)"
      have w3: "trace w3 = trace w2 @ devs" and devs: "devs = [] \<or> devs = [GitLog xp]"
        using debugLogStep_world[OF c3] by (auto simp: devs_def)
      have "\<exists>gevs. trace w' = trace w3 @ gevs \<and> (gevs = [] \<or> gevs = [GetGitSHA xp])"
      proof (cases r3)
        case (Some err)
        with assms c1 None c2 r2 c3 show ?thesis by (simp add: retrieve_def)
      next
        case r3: None
        show ?thesis
        proof (cases "getGitSHAFor e xp")
          case (Inl err)
          with assms c1 None c2 r2 c3 r3 show ?thesis
            by (auto simp: retrieve_def record_event_def)
        next
          case (Inr sha)
          obtain r4 w4 where c4: "prepareCache e (record_event (GetGitSHA xp) w3) = (r4, w4)"
            by (cases "prepareCache e (record_event (GetGitSHA xp) w3)")
          from prepareCache_trace[OF c4] have "trace w4 = trace w3 @ [GetGitSHA xp]"
            by (simp add: record_event_def)
          moreover from assms c1 None c2 r2 c3 r3 Inr c4 have "w' = w4"
            by (auto simp: retrieve_def split: sum.splits)
          ultimately show ?thesis by simp
        qed
      qed
      then obtain gevs where g: "trace w' = trace w3 @ gevs" "gevs = [] \<or> gevs = [GetGitSHA xp]"
        by blast
      show ?thesis using w1 w2 w3 g cevs devs cnone cvalid cinvalid ok
        by (intro exI[of _ "cevs @ devs @ gevs"]) auto
    qed
  qed
qed

lemma fetchTemplates_events:
  assumes "templateURL \<noteq> []" and "osMkdirTemp e = Inr xp"
  shows "\<exists>evs. fetchEvents e templateURL refName tn ow w =
            MkdirTemp # Invoke (fst (cloneCommand xp templateURL refName))
                          (snd (cloneCommand xp templateURL refName)) # evs
          \<and> filter isInvoke evs = []
          \<and> (\<not> (hasPrefix refName ShaPrefix \<and> matchesSHA (trimPrefix refName ShaPrefix)
                  \<and> gitCloneInvoke e (fst (cloneCommand xp templateURL refName))
                        (snd (cloneCommand xp templateURL refName)) = None)
               \<longrightarrow> filter isCheckout evs = [])
          \<and> (hasPrefix refName ShaPrefix \<and> matchesSHA (trimPrefix refName ShaPrefix)
               \<and> gitCloneInvoke e (fst (cloneCommand xp templateURL refName))
                     (snd (cloneCommand xp templateURL refName)) = None
               \<longrightarrow> take 1 evs = [Checkout xp (trimPrefix refName ShaPrefix)])"
proof -
  let ?w0 = "record_event MkdirTemp w"
  obtain r1 w1 where rt: "retrieve e xp templateURL refName ?w0 = (r1, w1)"
    by (cases "retrieve e xp templateURL refName ?w0")
  from retrieve_events[OF rt] obtain evs where
    tr: "trace w1 = trace ?w0 @ Invoke (fst (cloneCommand xp templateURL refName))
                          (snd (cloneCommand xp templateURL refName)) # evs"
    and p1: "filter isInvoke evs = []"
    and p2: "\<not> (hasPrefix refName ShaPrefix \<and> matchesSHA (trimPrefix refName ShaPrefix)
                  \<and> gitCloneInvoke e (fst (cloneCommand xp templateURL refName))
                        (snd (cloneCommand xp templateURL refName)) = None)
               \<longrightarrow> filter isCheckout evs = []"
    and p3: "hasPrefix refName ShaPrefix \<and> matchesSHA (trimPrefix refName ShaPrefix)
               \<and> gitCloneInvoke e (fst (cloneCommand xp templateURL refName))
                     (snd (cloneCommand xp templateURL refName)) = None
               \<longrightarrow> take 1 evs = [Checkout xp (trimPrefix refName ShaPrefix)]"
    by blast
  obtain r2 w2 where fi: "fetchInto e xp templateURL refName tn ow ?w0 = (r2, w2)"
    by (cases "fetchInto e xp templateURL refName tn ow ?w0")
  have "trace w2 = trace w1"
    using fi rt
    by (auto simp: fetchInto_def split: sum.splits prod.splits if_splits
        dest: moveTemplates_trace)
  then have "trace (snd (fetchTemplates e templateURL refName tn ow w)) =
      trace w @ MkdirTemp # Invoke (fst (cloneCommand xp templateURL refName))
                          (snd (cloneCommand xp templateURL refName))
        # (evs @ (if pullDebug e then [] else [RemoveAll xp]))"
    using assms fi tr by (simp add: fetchTemplates_def record_event_def)
  then have "fetchEvents e templateURL refName tn ow w =
      MkdirTemp # Invoke (fst (cloneCommand xp templateURL refName))
                          (snd (cloneCommand xp templateURL refName))
        # (evs @ (if pullDebug e then [] else [RemoveAll xp]))"
    unfolding fetchEvents_def by (rule newEvents_append)
  then show ?thesis using p1 p2 p3
    by (intro exI[of _ "evs @ (if pullDebug e then [] else [RemoveAll xp])"]) (cases evs; auto)
qed

text \<open>
  Claim C10: with the empty repository URL \<^verbatim>\<open>fetchTemplates\<close> returns its first error
  and leaves the world as it was: no temporary directory, no call of the version-control
  tool, no change of the local template directory.
\<close>

theorem fetchTemplates_empty_url:
  "fetchTemplates e '''' refName templateName overwriteTemplates w =
     (Some ErrPassValidTemplateURL, w)"
  by (simp add: fetchTemplates_def)

text \<open>
  Claim C7, as stated, at the ref \<open>sha-main\<close>, which has the \<^verbatim>\<open>sha-\<close> prefix and so
  counts as a commit digest: the run invokes the full-depth clone, and no checkout
  follows it.
\<close>

theorem fetchTemplates_clone_strategy_counterexample:
  "hasPrefix ''sha-main'' ShaPrefix
   \<and> fetchEvents env0 exampleRepo ''sha-main'' '''' False emptyCache =
       [MkdirTemp,
        Invoke GitCloneFullDepth
          \<lparr>arg_dir = tempDir, arg_repo = exampleRepo, arg_refname = None\<rparr>,
        RemoveAll tempDir]"
  by (simp add: run_defs fixture_defs exampleRepo_nonempty)

text \<open>
  Claim C7, amended: for a call with a repository URL whose temporary directory was made,
  the one clone command that the run invokes is the default clone when there is no ref,
  the branch clone with the ref as \<^verbatim>\<open>refname\<close> when the ref has no \<^verbatim>\<open>sha-\<close> prefix,
  neither followed by a checkout, and the full-depth clone when the ref has the prefix.
  In that case the checkout of exactly the digest is the call after the clone when the
  clone succeeds and the digest is a string of 7 to 40 hexadecimal digits, and the run
  makes no checkout otherwise.
\<close>

theorem fetchTemplates_clone_strategy:
  assumes "templateURL \<noteq> ''''" and "osMkdirTemp e = Inr xp"
  shows
    "(refName = '''' \<longrightarrow>
        filter isInvoke (fetchEvents e templateURL refName tn ow w) =
          [Invoke GitCloneDefault \<lparr>arg_dir = xp, arg_repo = templateURL, arg_refname = None\<rparr>]
        \<and> filter isCheckout (fetchEvents e templateURL refName tn ow w) = [])
     \<and> (refName \<noteq> '''' \<and> \<not> hasPrefix refName ShaPrefix \<longrightarrow>
        filter isInvoke (fetchEvents e templateURL refName tn ow w) =
          [Invoke GitCloneBranch
             \<lparr>arg_dir = xp, arg_repo = templateURL, arg_refname = Some refName\<rparr>]
        \<and> filter isCheckout (fetchEvents e templateURL refName tn ow w) = [])
     \<and> (hasPrefix refName ShaPrefix \<longrightarrow>
        filter isInvoke (fetchEvents e templateURL refName tn ow w) =
          [Invoke GitCloneFullDepth \<lparr>arg_dir = xp, arg_repo = templateURL, arg_refname = None\<rparr>]
        \<and> (gitCloneInvoke e GitCloneFullDepth
               \<lparr>arg_dir = xp, arg_repo = templateURL, arg_refname = None\<rparr> = None
             \<and> matchesSHA (trimPrefix refName ShaPrefix) \<longrightarrow>
             take 3 (fetchEvents e templateURL refName tn ow w) =
               [MkdirTemp,
                Invoke GitCloneFullDepth
                  \<lparr>arg_dir = xp, arg_repo = templateURL, arg_refname = None\<rparr>,
                Checkout xp (trimPrefix refName ShaPrefix)])
        \<and> (\<not> (gitCloneInvoke e GitCloneFullDepth
                  \<lparr>arg_dir = xp, arg_repo = templateURL, arg_refname = None\<rparr> = None
                \<and> matchesSHA (trimPrefix refName ShaPrefix)) \<longrightarrow>
             filter isCheckout (fetchEvents e templateURL refName tn ow w) = []))"
proof -
  from fetchTemplates_events[OF assms, of refName tn ow w] obtain evs where
    ev: "fetchEvents e templateURL refName tn ow w =
            MkdirTemp # Invoke (fst (cloneCommand xp templateURL refName))
                          (snd (cloneCommand xp templateURL refName)) # evs"
    and p1: "filter isInvoke evs = []"
    and p2: "\<not> (hasPrefix refName ShaPrefix \<and> matchesSHA (trimPrefix refName ShaPrefix)
                  \<and> gitCloneInvoke e (fst (cloneCommand xp templateURL refName))
                        (snd (cloneCommand xp templateURL refName)) = None)
               \<longrightarrow> filter isCheckout evs = []"
    and p3: "hasPrefix refName ShaPrefix \<and> matchesSHA (trimPrefix refName ShaPrefix)
               \<and> gitCloneInvoke e (fst (cloneCommand xp templateURL refName))
                     (snd (cloneCommand xp templateURL refName)) = None
               \<longrightarrow> take 1 evs = [Checkout xp (trimPrefix refName ShaPrefix)]"
    by blast
  have a: "refName = '''' \<Longrightarrow> \<not> hasPrefix refName ShaPrefix"
    using hasPrefix_nonempty by blast
  have t3: "take 3 (x # y # evs) = x # y # take 1 evs" for x y :: event
    by (simp add: numeral_3_eq_3)
  show ?thesis
  proof (intro conjI impI)
    assume "refName = ''''"
    then show "filter isInvoke (fetchEvents e templateURL refName tn ow w) =
          [Invoke GitCloneDefault \<lparr>arg_dir = xp, arg_repo = templateURL, arg_refname = None\<rparr>]"
      using ev p1 by (simp add: cloneCommand_cases)
  next
    assume "refName = ''''"
    then show "filter isCheckout (fetchEvents e templateURL refName tn ow w) = []"
      using ev p2 a by simp
  next
    assume "refName \<noteq> '''' \<and> \<not> hasPrefix refName ShaPrefix"
    then show "filter isInvoke (fetchEvents e templateURL refName tn ow w) =
          [Invoke GitCloneBranch
             \<lparr>arg_dir = xp, arg_repo = templateURL, arg_refname = Some refName\<rparr>]"
      using ev p1 by (simp add: cloneCommand_cases)
  next
    assume "refName \<noteq> '''' \<and> \<not> hasPrefix refName ShaPrefix"
    then show "filter isCheckout (fetchEvents e templateURL refName tn ow w) = []"
      using ev p2 by simp
  next
    assume "hasPrefix refName ShaPrefix"
    then show "filter isInvoke (fetchEvents e templateURL refName tn ow w) =
          [Invoke GitCloneFullDepth \<lparr>arg_dir = xp, arg_repo = templateURL, arg_refname = None\<rparr>]"
      using ev p1 hasPrefix_nonempty[of refName] by (simp add: cloneCommand_cases)
  next
    assume h: "hasPrefix refName ShaPrefix"
      and "gitCloneInvoke e GitCloneFullDepth
               \<lparr>arg_dir = xp, arg_repo = templateURL, arg_refname = None\<rparr> = None
             \<and> matchesSHA (trimPrefix refName ShaPrefix)"
    then show "take 3 (fetchEvents e templateURL refName tn ow w) =
               [MkdirTemp,
                Invoke GitCloneFullDepth
                  \<lparr>arg_dir = xp, arg_repo = templateURL, arg_refname = None\<rparr>,
                Checkout xp (trimPrefix refName ShaPrefix)]"
      using ev p3 hasPrefix_nonempty[OF h] by (simp add: cloneCommand_cases t3)
  next
    assume h: "hasPrefix refName ShaPrefix"
      and "\<not> (gitCloneInvoke e GitCloneFullDepth
                  \<lparr>arg_dir = xp, arg_repo = templateURL, arg_refname = None\<rparr> = None
                \<and> matchesSHA (trimPrefix refName ShaPrefix))"
    then show "filter isCheckout (fetchEvents e templateURL refName tn ow w) = []"
      using ev p2 hasPrefix_nonempty[OF h] by (auto simp: cloneCommand_cases)
  qed
qed

theorem fetchTemplates_clone_strategy_witness:
  "filter isInvoke (fetchEvents env0 exampleRepo '''' '''' False emptyCache) =
     [Invoke GitCloneDefault \<lparr>arg_dir = tempDir, arg_repo = exampleRepo, arg_refname = None\<rparr>]
   \<and> filter isCheckout (fetchEvents env0 exampleRepo '''' '''' False emptyCache) = []
   \<and> filter isInvoke (fetchEvents env0 exampleRepo ''v1'' '''' False emptyCache) =
       [Invoke GitCloneBranch
          \<lparr>arg_dir = tempDir, arg_repo = exampleRepo, arg_refname = Some ''v1''\<rparr>]
   \<and> filter isCheckout (fetchEvents env0 exampleRepo ''v1'' '''' False emptyCache) = []
   \<and> filter isInvoke (fetchEvents env0 exampleRepo ''sha-8f5bd6b'' '''' False emptyCache) =
       [Invoke GitCloneFullDepth
          \<lparr>arg_dir = tempDir, arg_repo = exampleRepo, arg_refname = None\<rparr>]
   \<and> take 3 (fetchEvents env0 exampleRepo ''sha-8f5bd6b'' '''' False emptyCache) =
       [MkdirTemp,
        Invoke GitCloneFullDepth
          \<lparr>arg_dir = tempDir, arg_repo = exampleRepo, arg_refname = None\<rparr>,
        Checkout tempDir ''8f5bd6b'']
   \<and> \<not> matchesSHA (trimPrefix ''sha-12345'' ShaPrefix)
   \<and> filter isInvoke (fetchEvents env0 exampleRepo ''sha-12345'' '''' False emptyCache) =
       [Invoke GitCloneFullDepth
          \<lparr>arg_dir = tempDir, arg_repo = exampleRepo, arg_refname = None\<rparr>]
   \<and> filter isCheckout (fetchEvents env0 exampleRepo ''sha-12345'' '''' False emptyCache) = []"
proof -
  have tmp: "osMkdirTemp env0 = Inr tempDir"
    by (simp add: env0_def)
  have none: "\<not> hasPrefix ''v1'' ShaPrefix"
    by (simp add: hasPrefix_def ShaPrefix_def)
  have sha: "hasPrefix ''sha-8f5bd6b'' ShaPrefix"
    by (simp add: hasPrefix_def ShaPrefix_def)
  have ok: "gitCloneInvoke env0 GitCloneFullDepth
              \<lparr>arg_dir = tempDir, arg_repo = exampleRepo, arg_refname = None\<rparr> = None"
    by (simp add: env0_def)
  have digest: "matchesSHA (trimPrefix ''sha-8f5bd6b'' ShaPrefix)"
    by (simp add: matchesSHA_def trimPrefix_def hasPrefix_def ShaPrefix_def isHexDigit_def)
  have trim: "trimPrefix ''sha-8f5bd6b'' ShaPrefix = ''8f5bd6b''"
    by (simp add: trimPrefix_def hasPrefix_def ShaPrefix_def)
  have short: "hasPrefix ''sha-12345'' ShaPrefix"
    by (simp add: hasPrefix_def ShaPrefix_def)
  have bad: "\<not> matchesSHA (trimPrefix ''sha-12345'' ShaPrefix)"
    by (simp add: matchesSHA_def trimPrefix_def hasPrefix_def ShaPrefix_def)
  show ?thesis
    using fetchTemplates_clone_strategy [OF exampleRepo_nonempty tmp, of "''''" "''''" False emptyCache]
      fetchTemplates_clone_strategy [OF exampleRepo_nonempty tmp, of "''v1''" "''''" False emptyCache]
      fetchTemplates_clone_strategy [OF exampleRepo_nonempty tmp, of "''sha-8f5bd6b''" "''''" False emptyCache]
      fetchTemplates_clone_strategy [OF exampleRepo_nonempty tmp, of "''sha-12345''" "''''" False emptyCache]
      none sha ok digest trim short bad
    by simp
qed

text \<open>
  Claim C3, as stated, at the ref \<open>sha-abc123\<close>, whose digest has six digits only: the call
  fails with the invalid-digest error, but the trace shows that the temporary directory
  was made and the full-depth clone invoked before.
\<close>

theorem fetchTemplates_invalid_sha_counterexample:
  "fetchTemplates env0 exampleRepo ''sha-abc123'' '''' False emptyCache =
     (Some (ErrInvalidSHA ''abc123''),
      \<lparr>cache = Entries [],
       trace =
         [MkdirTemp,
          Invoke GitCloneFullDepth
            \<lparr>arg_dir = tempDir, arg_repo = exampleRepo, arg_refname = None\<rparr>,
          RemoveAll tempDir]\<rparr>)"
  by (simp add: run_defs fixture_defs exampleRepo_nonempty)

text \<open>
  Claim C3, amended: for a ref with the \<^verbatim>\<open>sha-\<close> prefix whose digest is not a string of 7 to
  40 hexadecimal digits, a call whose temporary directory was made and whose full-depth
  clone succeeded fails with the invalid-digest error. The digest is checked after the
  clone and before the checkout: the run has made the temporary directory and invoked the
  clone, makes no checkout and leaves the local template directory as it was.
\<close>

theorem fetchTemplates_invalid_sha_after_clone:
  assumes "templateURL \<noteq> ''''" and "osMkdirTemp e = Inr xp"
    and "hasPrefix refName ShaPrefix"
    and "\<not> matchesSHA (trimPrefix refName ShaPrefix)"
    and "gitCloneInvoke e GitCloneFullDepth
           \<lparr>arg_dir = xp, arg_repo = templateURL, arg_refname = None\<rparr> = None"
  shows "fetchTemplates e templateURL refName tn ow w =
           (Some (ErrInvalidSHA (trimPrefix refName ShaPrefix)),
            w\<lparr>trace := trace w
                 @ [MkdirTemp,
                    Invoke GitCloneFullDepth
                      \<lparr>arg_dir = xp, arg_repo = templateURL, arg_refname = None\<rparr>]
                 @ (if pullDebug e then [] else [RemoveAll xp])\<rparr>)"
proof -
  have ne: "refName \<noteq> []" using assms(3) by (rule hasPrefix_nonempty)
  have cl: "cloneStep e xp templateURL refName (record_event MkdirTemp w) =
      (None, record_event (Invoke GitCloneFullDepth
                      \<lparr>arg_dir = xp, arg_repo = templateURL, arg_refname = None\<rparr>)
               (record_event MkdirTemp w))"
    using assms(3,5) ne by (simp add: cloneStep_def cloneCommand_cases)
  have "retrieve e xp templateURL refName (record_event MkdirTemp w) =
      (Inl (ErrInvalidSHA (trimPrefix refName ShaPrefix)),
       record_event (Invoke GitCloneFullDepth
                      \<lparr>arg_dir = xp, arg_repo = templateURL, arg_refname = None\<rparr>)
               (record_event MkdirTemp w))"
    by (simp add: retrieve_def cl checkoutStep_invalid[OF assms(3,4)])
  then show ?thesis
    using assms(1,2) by (simp add: fetchTemplates_def fetchInto_def record_event_def)
qed

theorem fetchTemplates_invalid_sha_after_clone_witness:
  "hasPrefix ''sha-123456g'' ShaPrefix
   \<and> \<not> matchesSHA (trimPrefix ''sha-123456g'' ShaPrefix)
   \<and> fetchTemplates env0 exampleRepo ''sha-123456g'' '''' True pythonCache =
       (Some (ErrInvalidSHA ''123456g''),
        pythonCache\<lparr>trace :=
          [MkdirTemp,
           Invoke GitCloneFullDepth
             \<lparr>arg_dir = tempDir, arg_repo = exampleRepo, arg_refname = None\<rparr>,
           RemoveAll tempDir]\<rparr>)"
proof -
  have tmp: "osMkdirTemp env0 = Inr tempDir"
    by (simp add: env0_def)
  have sha: "hasPrefix ''sha-123456g'' ShaPrefix"
    by (simp add: hasPrefix_def ShaPrefix_def)
  have bad: "\<not> matchesSHA (trimPrefix ''sha-123456g'' ShaPrefix)"
    by (simp add: matchesSHA_def trimPrefix_def hasPrefix_def ShaPrefix_def isHexDigit_def)
  have ok: "gitCloneInvoke env0 GitCloneFullDepth
              \<lparr>arg_dir = tempDir, arg_repo = exampleRepo, arg_refname = None\<rparr> = None"
    by (simp add: env0_def)
  have trim: "trimPrefix ''sha-123456g'' ShaPrefix = ''123456g''"
    by (simp add: trimPrefix_def hasPrefix_def ShaPrefix_def)
  have dbg: "\<not> pullDebug env0"
    by (simp add: env0_def)
  have tr: "trace pythonCache = []"
    by (simp add: pythonCache_def)
  show ?thesis
    using fetchTemplates_invalid_sha_after_clone
            [OF exampleRepo_nonempty tmp sha bad ok, of "''''" True pythonCache]
      sha bad trim dbg tr
    by simp
qed

text \<open>
  Claim C2, as stated, at a cache that holds \<open>python\<close> and a retrieved tree with \<open>node\<close> and
  \<open>python\<close>, without overwriting: \<open>node\<close> is approved and written, \<open>python\<close> is protected,
  and the call returns an error.
\<close>

theorem fetchTemplates_soft_outcome_counterexample:
  "cacheLookup pythonCache ''node'' = None
   \<and> cacheLookup (snd (fetchTemplates env0 exampleRepo '''' '''' False pythonCache)) ''node'' =
       Some (Dir (AList.update ''meta.json''
                    (File (Document (templateMetaJSON
                       \<lparr>Repository = exampleRepo, RefName = '''', Sha = headDigest,
                        WrittenAt = 1700000000\<rparr>)))
                    nodeFiles))
   \<and> fst (fetchTemplates env0 exampleRepo '''' '''' False pythonCache) =
       Some (ErrUnableToOverwrite [''python''])"
  by (simp add: run_defs fixture_defs exampleRepo_nonempty)

text \<open>
  Claim C2, amended: when a call reaches the reconciliation and the reconciliation itself
  returns no error, the call succeeds exactly when no candidate was protected. With a
  protected candidate it fails with the error that lists the protected names, whether or
  not other candidates were written, and what was written stays in the cache.
\<close>

theorem fetchTemplates_protected_is_failure:
  assumes "templateURL \<noteq> ''''" and "osMkdirTemp e = Inr xp"
    and "retrieve e xp templateURL refName (record_event MkdirTemp w) = (Inr (sha, ldir), w1)"
    and "moveTemplates e ldir xp tn ow templateURL refName sha w1 = (Inr (protected, fetched), w2)"
  shows "fst (fetchTemplates e templateURL refName tn ow w) =
           (if protected = [] then None else Some (ErrUnableToOverwrite protected))
         \<and> cache (snd (fetchTemplates e templateURL refName tn ow w)) = cache w2"
  using assms by (simp add: fetchTemplates_def fetchInto_def record_event_def)

theorem fetchTemplates_protected_is_failure_witness:
  "fst (retrieve env0 tempDir exampleRepo '''' (record_event MkdirTemp pythonCache)) =
     Inr (headDigest, ''/work/template'')
   \<and> fst (moveTemplates env0 ''/work/template'' tempDir '''' False exampleRepo '''' headDigest
           (snd (retrieve env0 tempDir exampleRepo '''' (record_event MkdirTemp pythonCache)))) =
       Inr ([''python''], [''node''])
   \<and> fst (fetchTemplates env0 exampleRepo '''' '''' False pythonCache) =
       Some (ErrUnableToOverwrite [''python''])"
proof -
  let ?w1 = "snd (retrieve env0 tempDir exampleRepo '''' (record_event MkdirTemp pythonCache))"
  let ?w2 = "snd (moveTemplates env0 ''/work/template'' tempDir '''' False exampleRepo ''''
                    headDigest ?w1)"
  have tmp: "osMkdirTemp env0 = Inr tempDir"
    by (simp add: env0_def)
  have r: "fst (retrieve env0 tempDir exampleRepo '''' (record_event MkdirTemp pythonCache)) =
     Inr (headDigest, ''/work/template'')"
    by (simp add: run_defs fixture_defs)
  have m: "fst (moveTemplates env0 ''/work/template'' tempDir '''' False exampleRepo '''' headDigest
                  ?w1) = Inr ([''python''], [''node''])"
    by (simp add: run_defs fixture_defs)
  have r': "retrieve env0 tempDir exampleRepo '''' (record_event MkdirTemp pythonCache) =
     (Inr (headDigest, ''/work/template''), ?w1)"
    using r by (simp add: prod_eq_iff)
  have m': "moveTemplates env0 ''/work/template'' tempDir '''' False exampleRepo '''' headDigest
                  ?w1 = (Inr ([''python''], [''node'']), ?w2)"
    using m by (simp add: prod_eq_iff)
  show ?thesis
    using fetchTemplates_protected_is_failure [OF exampleRepo_nonempty tmp r' m'] r m
    by simp
qed

end
